theory Spec2Isabelle
  imports Main
begin

section \<open>Go values used by the daemon\<close>

subsection \<open>Errors\<close>

text \<open>
  The sentinel errors of package \<open>autoscan\<close> that \<open>main\<close> and the plex target name
  (\<open>autoscan.ErrNoScans\<close>, \<open>autoscan.ErrAnchorUnavailable\<close>,
  \<open>autoscan.ErrTargetUnavailable\<close>, \<open>autoscan.ErrFatal\<close>). Modelled from the spec: the
  declarations themselves live in a file of package \<open>autoscan\<close> that is not part of the
  sources; section 7 of the specification lists them as the error kinds the processor
  reasons about.
\<close>

datatype sentinel = ErrNoScans | ErrAnchorUnavailable | ErrTargetUnavailable | ErrFatal

text \<open>
  A Go error value as this code base builds them: a sentinel, an opaque leaf made by
  \<open>errors.New\<close> or by \<open>fmt.Errorf\<close> without \<open>%w\<close>, or \<open>fmt.Errorf("...: %w", e)\<close>,
  which wraps exactly one error. \<open>errors.Is\<close> walks the chain of wrapped errors.
\<close>

datatype error = Sentinel sentinel | Opaque string | Wrapf string error

fun errors_Is :: "error \<Rightarrow> sentinel \<Rightarrow> bool" where
  "errors_Is (Sentinel s) t = (s = t)"
| "errors_Is (Opaque m) t = False"
| "errors_Is (Wrapf m e) t = errors_Is e t"

subsection \<open>Package strings\<close>

definition HasPrefix :: "string \<Rightarrow> string \<Rightarrow> bool" where
  "HasPrefix s p = (take (length p) s = p)"

definition HasSuffix :: "string \<Rightarrow> string \<Rightarrow> bool" where
  "HasSuffix s suffix =
     (length suffix \<le> length s \<and> drop (length s - length suffix) s = suffix)"

definition TrimPrefix :: "string \<Rightarrow> string \<Rightarrow> string" where
  "TrimPrefix s p = (if HasPrefix s p then drop (length p) s else s)"

definition TrimSuffix :: "string \<Rightarrow> string \<Rightarrow> string" where
  "TrimSuffix s suffix =
     (if HasSuffix s suffix then take (length s - length suffix) s else s)"

fun Contains :: "string \<Rightarrow> string \<Rightarrow> bool" where
  "Contains [] substr = (substr = [])"
| "Contains (c # cs) substr = (HasPrefix (c # cs) substr \<or> Contains cs substr)"

text \<open>\<open>strings.LastIndex\<close>: the index of the last instance of \<open>substr\<close> in \<open>s\<close>, or \<open>-1\<close>.\<close>

fun LastIndex :: "string \<Rightarrow> string \<Rightarrow> int" where
  "LastIndex [] substr = (if substr = [] then 0 else - 1)"
| "LastIndex (c # cs) substr =
     (let r = LastIndex cs substr in
      if 0 \<le> r then r + 1
      else if HasPrefix (c # cs) substr then 0
      else - 1)"

text \<open>
  \<open>strings.Split(s, sep)\<close> for a separator of one byte, the only way the sources call
  it (\<open>strings.Split(version, ".")\<close>). The result is never empty: a string without the
  separator is returned whole.
\<close>

fun Split :: "string \<Rightarrow> char \<Rightarrow> string list" where
  "Split [] sep = [[]]"
| "Split (c # cs) sep =
     (if c = sep then [] # Split cs sep
      else (case Split cs sep of [] \<Rightarrow> [[c]] | p # ps \<Rightarrow> (c # p) # ps))"

subsection \<open>Package strconv\<close>

text \<open>
  \<open>strconv.Atoi\<close> on a platform whose \<open>int\<close> has 64 bits. It returns a value and an
  error; the value is \<open>0\<close> on a syntax error and the nearest bound on a range error.
  Strings of 1 to 18 bytes take the fast path; everything else goes through
  \<open>ParseInt(s, 10, 0)\<close> and \<open>ParseUint\<close>, whose loop stops at the first byte that is not
  a digit or at the first overflow of the unsigned 64-bit accumulator, whichever comes
  first.
\<close>

datatype NumError = ErrSyntax | ErrRange

text \<open>The fast path's loop: \<open>ch -= '0'; if ch > 9 {...}; n = n*10 + int(ch)\<close> on bytes.\<close>

fun atoi_fast :: "int \<Rightarrow> string \<Rightarrow> int option" where
  "atoi_fast n [] = Some n"
| "atoi_fast n (ch # cs) =
     (let d = (of_char ch + 256 - 48) mod (256::nat) in
      if 9 < d then None else atoi_fast (n * 10 + int d) cs)"

definition maxUint64 :: nat where
  "maxUint64 = 2 ^ 64 - 1"

text \<open>The loop of \<open>ParseUint\<close> for base 10 and bit size 64, arithmetic modulo \<open>2 ^ 64\<close>.\<close>

fun parseUint_loop :: "nat \<Rightarrow> string \<Rightarrow> nat \<times> NumError option" where
  "parseUint_loop n [] = (n, None)"
| "parseUint_loop n (c # cs) =
     (if \<not> (48 \<le> (of_char c :: nat) \<and> (of_char c :: nat) \<le> 57) then (0, Some ErrSyntax)
      else
        let d = (of_char c :: nat) - 48 in
        if maxUint64 div 10 + 1 \<le> n then (maxUint64, Some ErrRange)
        else
          let n' = n * 10; n1 = (n' + d) mod 2 ^ 64 in
          if n1 < n' \<or> maxUint64 < n1 then (maxUint64, Some ErrRange)
          else parseUint_loop n1 cs)"

definition ParseUint :: "string \<Rightarrow> nat \<times> NumError option" where
  "ParseUint s = (if s = [] then (0, Some ErrSyntax) else parseUint_loop 0 s)"

definition ParseInt :: "string \<Rightarrow> int \<times> NumError option" where
  "ParseInt s =
     (if s = [] then (0, Some ErrSyntax)
      else
        let neg = (hd s = CHR ''-'');
            s' = (if hd s = CHR ''+'' \<or> hd s = CHR ''-'' then tl s else s);
            (un, err) = ParseUint s'
        in
          if err = Some ErrSyntax then (0, err)
          else if \<not> neg \<and> 2 ^ 63 \<le> un then (2 ^ 63 - 1, Some ErrRange)
          else if neg \<and> 2 ^ 63 < un then (- (2 ^ 63), Some ErrRange)
          else if neg then (- int un, None)
          else (int un, None))"

definition Atoi :: "string \<Rightarrow> int \<times> NumError option" where
  "Atoi s =
     (if 0 < length s \<and> length s < 19 then
        let s' = (if hd s = CHR ''-'' \<or> hd s = CHR ''+'' then tl s else s) in
        if (hd s = CHR ''-'' \<or> hd s = CHR ''+'') \<and> length s' < 1 then (0, Some ErrSyntax)
        else
          (case atoi_fast 0 s' of
             None \<Rightarrow> (0, Some ErrSyntax)
           | Some n \<Rightarrow> (if hd s = CHR ''-'' then (- n, None) else (n, None)))
      else ParseInt s)"

section \<open>The plex target\<close>

subsection \<open>Version check\<close>

definition isSupportedVersion :: "string \<Rightarrow> bool" where
  "isSupportedVersion version =
     (let parts = Split version CHR ''.'' in
      if length parts < 2 then False
      else
        let major = fst (Atoi (parts ! 0));
            minor = fst (Atoi (parts ! 1))
        in
          if 2 \<le> major \<or> (major = 1 \<and> 20 \<le> minor) then True else False)"


subsection \<open>Data of the target\<close>

text \<open>
  A library as the Plex API client reports it. The struct is declared beside the API
  client, outside the sources; \<open>Scan\<close> and \<open>getScanLibrary\<close> read its fields \<open>ID\<close>,
  \<open>Name\<close> and \<open>Path\<close>.
\<close>

record library =
  lib_ID :: int
  lib_Name :: string
  lib_Path :: string

text \<open>
  \<open>autoscan.Scan\<close>, the unit of work handed to a target. Modelled from the spec: the
  struct is declared in package \<open>autoscan\<close>, outside the sources; section 3 of the
  specification gives its fields. The plex target reads \<open>Folder\<close> only.
\<close>

record scan =
  Folder :: string
  Filename :: string
  Priority :: int
  Time :: int
  Retries :: int

text \<open>\<open>autoscan.Rewrite\<close>: one rule of a target's or trigger's \<open>rewrite\<close> list.\<close>

record rewrite_rule =
  From :: string
  To :: string

record plex_Config =
  URL :: string
  Token :: string
  Rewrite :: "rewrite_rule list"
  Verbosity :: string

text \<open>
  The target. Its \<open>rewrite\<close> field is the \<open>autoscan.Rewriter\<close> built by
  \<open>autoscan.NewRewriter\<close>, a function from paths to paths. The logger and the API client
  are the effects below.
\<close>

record target =
  url :: string
  token :: string
  libraries :: "library list"
  rewrite :: "string \<Rightarrow> string"

subsection \<open>Effects\<close>

datatype level = TraceLevel | DebugLevel | InfoLevel | WarnLevel | ErrorLevel | FatalLevel

type_synonym rclonerc = "(string \<times> string) list"

text \<open>
  What a run does to the outside, in order: log entries handed to a logger
  (\<open>Log\<close>, whatever the logger's own level then lets through), HTTP POSTs of
  \<open>rcrefresh\<close>, calls of the Plex API client, and for \<open>main\<close>: calls of constructors
  of other packages (\<open>Called\<close>), goroutines started (\<open>Go\<close>), patterns registered on the
  mux (\<open>Handle\<close>), \<open>time.Sleep\<close>, the two processor calls of the driver loop with what
  they returned, and HTTP requests answered by the server goroutine (\<open>Served\<close>, with
  the status code).
\<close>

datatype effect =
    Log level string
  | Post string rclonerc
  | ApiVersion string
  | ApiLibraries string
  | ApiScan string int
  | Called string
  | Go string
  | Handle string
  | Sleep int
  | CheckedAvailability "error option"
  | Processed "error option"
  | Served string int

text \<open>
  The outside world is a state \<open>'w\<close> that every external call reads and may change.
  \<open>client_Do\<close> is \<open>http.Client.Do\<close> followed by reading the response body: a transport
  error, or the body as a string. The other fields are the methods of the API client
  and \<open>autoscan.NewRewriter\<close>, all declared outside the sources.
\<close>

record 'w plex_env =
  client_Do :: "string \<Rightarrow> rclonerc \<Rightarrow> 'w \<Rightarrow> (error + string) \<times> 'w"
  api_Version :: "string \<Rightarrow> string \<Rightarrow> 'w \<Rightarrow> (error + string) \<times> 'w"
  api_Libraries :: "string \<Rightarrow> string \<Rightarrow> 'w \<Rightarrow> (error + library list) \<times> 'w"
  api_Scan :: "string \<Rightarrow> string \<Rightarrow> string \<Rightarrow> int \<Rightarrow> 'w \<Rightarrow> error option \<times> 'w"
  NewRewriter :: "rewrite_rule list \<Rightarrow> error + (string \<Rightarrow> string)"

record 'w st =
  world :: 'w
  trace :: "effect list"

definition emit :: "effect \<Rightarrow> 'w st \<Rightarrow> 'w st" where
  "emit e s = s\<lparr>trace := trace s @ [e]\<rparr>"

text \<open>
  A Go call returns, panics (the panic unwinds the calling goroutine and, unrecovered,
  ends the process), or ends the process through \<open>os.Exit\<close>.
\<close>

datatype panic =
    PanicError error
  | SliceBounds int nat
  | MultipleRegistrations string

datatype 'a outcome = Returns 'a | Panics panic | Exits int

definition and_then ::
  "('s \<Rightarrow> 'a outcome \<times> 's) \<Rightarrow> ('a \<Rightarrow> 's \<Rightarrow> 'b outcome \<times> 's) \<Rightarrow> 's \<Rightarrow> 'b outcome \<times> 's" where
  "and_then m f s =
     (case m s of
        (Returns a, s') \<Rightarrow> f a s'
      | (Panics p, s') \<Rightarrow> (Panics p, s')
      | (Exits n, s') \<Rightarrow> (Exits n, s'))"

text \<open>The slice expression \<open>s[i:]\<close>: a run-time panic unless \<open>0 \<le> i \<le> len(s)\<close>.\<close>

definition slice_from :: "string \<Rightarrow> int \<Rightarrow> 's \<Rightarrow> string outcome \<times> 's" where
  "slice_from s i st =
     (if i < 0 \<or> int (length s) < i then (Panics (SliceBounds i (length s)), st)
      else (Returns (drop (nat i) s), st))"

subsection \<open>Constructor\<close>

definition New :: "'w plex_env \<Rightarrow> plex_Config \<Rightarrow> 'w st \<Rightarrow> (error + target) \<times> 'w st" where
  "New env c s =
     (case NewRewriter env (Rewrite c) of
        Inl err \<Rightarrow> (Inl err, s)
      | Inr rewriter \<Rightarrow>
          (case api_Version env (URL c) (Token c) (world s) of
             (Inl err, w1) \<Rightarrow> (Inl err, emit (ApiVersion (URL c)) (s\<lparr>world := w1\<rparr>))
           | (Inr version, w1) \<Rightarrow>
               let s1 = emit (Log DebugLevel (''Plex version: '' @ version))
                          (emit (ApiVersion (URL c)) (s\<lparr>world := w1\<rparr>))
               in
                 if \<not> isSupportedVersion version then
                   (Inl (Wrapf (''plex running unsupported version '' @ version @ '': '')
                           (Sentinel ErrFatal)), s1)
                 else
                   (case api_Libraries env (URL c) (Token c) (world s1) of
                      (Inl err, w2) \<Rightarrow> (Inl err, emit (ApiLibraries (URL c)) (s1\<lparr>world := w2\<rparr>))
                    | (Inr libs, w2) \<Rightarrow>
                        (Inr \<lparr>url = URL c, token = Token c, libraries = libs,
                              rewrite = rewriter\<rparr>,
                         emit (Log DebugLevel ''Retrieved libraries'')
                           (emit (ApiLibraries (URL c)) (s1\<lparr>world := w2\<rparr>))))))"

subsection \<open>Scanning\<close>

definition getScanLibrary :: "target \<Rightarrow> string \<Rightarrow> error + library list" where
  "getScanLibrary t folder =
     (let libs = filter (\<lambda>l. HasPrefix folder (lib_Path l)) (libraries t) in
      if length libs = 0 then Inl (Opaque (folder @ '': failed determining libraries''))
      else Inr libs)"

text \<open>
  \<open>rcrefresh\<close> posts the JSON encoding of \<open>Data\<close> and returns the response body; when
  \<open>client.Do\<close> returns an error it calls \<open>panic(err)\<close>. The lines written to standard
  output are not modelled.
\<close>

definition rcrefresh :: "'w plex_env \<Rightarrow> rclonerc \<Rightarrow> string \<Rightarrow> 'w st \<Rightarrow> string outcome \<times> 'w st" where
  "rcrefresh env Data u s =
     (case client_Do env u Data (world s) of
        (Inl err, w) \<Rightarrow> (Panics (PanicError err), emit (Post u Data) (s\<lparr>world := w\<rparr>))
      | (Inr body, w) \<Rightarrow> (Returns body, emit (Post u Data) (s\<lparr>world := w\<rparr>)))"

text \<open>The loop \<open>for _, lib := range libs\<close> at the end of \<open>Scan\<close>.\<close>

fun send_scan_requests ::
  "'w plex_env \<Rightarrow> target \<Rightarrow> string \<Rightarrow> library list \<Rightarrow> 'w st \<Rightarrow> error option outcome \<times> 'w st" where
  "send_scan_requests env t scanFolder [] s = (Returns None, s)"
| "send_scan_requests env t scanFolder (lib # libs) s =
     (let s1 = emit (ApiScan scanFolder (lib_ID lib)) (emit (Log TraceLevel ''Sending scan request'') s) in
      case api_Scan env (url t) (token t) scanFolder (lib_ID lib) (world s) of
        (Some err, w) \<Rightarrow> (Returns (Some err), s1\<lparr>world := w\<rparr>)
      | (None, w) \<Rightarrow>
          send_scan_requests env t scanFolder libs
            (emit (Log InfoLevel ''Scan moved to target'') (s1\<lparr>world := w\<rparr>)))"

definition refresh_url :: string where
  "refresh_url = ''http://192.168.1.172:5570/vfs%2Frefresh''"

definition refresh_url2 :: string where
  "refresh_url2 = ''http://192.168.1.15:5572/vfs%2Frefresh''"

definition Scan :: "'w plex_env \<Rightarrow> target \<Rightarrow> scan \<Rightarrow> 'w st \<Rightarrow> error option outcome \<times> 'w st" where
  "Scan env t sc =
     (let scanFolder = rewrite t (Folder sc) in
      case getScanLibrary t scanFolder of
        Inl err \<Rightarrow> (\<lambda>s. (Returns None, emit (Log WarnLevel ''No target libraries found'') s))
      | Inr libs \<Rightarrow>
          let s = TrimPrefix scanFolder ''/mnt/unionfs/Media'' in
          and_then (slice_from s (LastIndex s ''/'')) (\<lambda>suffix.
          let base_dir = TrimSuffix s suffix;
              firstrequest = [(''recursive'', ''true''), (''dir'', s)]
          in
          and_then (rcrefresh env firstrequest refresh_url) (\<lambda>resp.
          and_then (rcrefresh env firstrequest refresh_url2) (\<lambda>_.
          and_then
            (if Contains resp ''file does not exist'' then
               let secondrequest = [(''recursive'', ''false''), (''dir'', base_dir)] in
               and_then (rcrefresh env secondrequest refresh_url) (\<lambda>resp2.
               and_then (rcrefresh env secondrequest refresh_url2) (\<lambda>_.
               if Contains resp2 ''OK'' then
                 let thirdrequest = [(''recursive'', ''true''), (''dir'', s)] in
                 and_then (rcrefresh env thirdrequest refresh_url) (\<lambda>_.
                 rcrefresh env thirdrequest refresh_url2)
               else
                 and_then (slice_from base_dir (LastIndex base_dir ''/'')) (\<lambda>base_dirtmp.
                 let new_base_dir = TrimSuffix base_dir base_dirtmp;
                     fourthrequest = [(''recursive'', ''false''), (''dir'', new_base_dir)]
                 in
                 and_then (rcrefresh env fourthrequest refresh_url) (\<lambda>_.
                 rcrefresh env fourthrequest refresh_url2))))
             else (\<lambda>s'. (Returns [], s')))
            (\<lambda>_. send_scan_requests env t scanFolder libs)))))"


section \<open>The daemon (package main)\<close>

subsection \<open>Configuration\<close>

text \<open>
  The per-instance configurations of the triggers and of the emby target are declared
  in their own packages, outside the sources. \<open>main\<close> reads \<open>Name\<close> and \<open>Verbosity\<close> of
  the HTTP triggers, \<open>DatastorePath\<close> of a bernard trigger and \<open>URL\<close> of an emby
  target; the records hold those fields.
\<close>

record trigger_Config =
  trigger_Name :: string
  trigger_Verbosity :: string

record bernard_Config =
  DatastorePath :: string

record emby_Config =
  emby_URL :: string

text \<open>
  The struct \<open>config\<close>, its nested structs \<open>Auth\<close>, \<open>Triggers\<close> and \<open>Targets\<close> flattened.
  Durations are \<open>time.Duration\<close>, a number of nanoseconds.
\<close>

record config =
  Port :: int
  MinimumAge :: int
  ScanDelay :: int
  Anchors :: "string list"
  Auth_Username :: string
  Auth_Password :: string
  Triggers_Manual :: trigger_Config
  Triggers_Bernard :: "bernard_Config list"
  Triggers_Inotify :: "trigger_Config list"
  Triggers_Lidarr :: "trigger_Config list"
  Triggers_Radarr :: "trigger_Config list"
  Triggers_Sonarr :: "trigger_Config list"
  Targets_Plex :: "plex_Config list"
  Targets_Emby :: "emby_Config list"

definition Second :: int where
  "Second = 1000000000"

definition Minute :: int where
  "Minute = 60 * Second"

text \<open>The zero value of \<open>config\<close>, and the literal \<open>main\<close> starts from.\<close>

definition zero_config :: config where
  "zero_config =
     \<lparr>Port = 0, MinimumAge = 0, ScanDelay = 0, Anchors = [],
      Auth_Username = [], Auth_Password = [],
      Triggers_Manual = \<lparr>trigger_Name = [], trigger_Verbosity = []\<rparr>,
      Triggers_Bernard = [], Triggers_Inotify = [], Triggers_Lidarr = [],
      Triggers_Radarr = [], Triggers_Sonarr = [],
      Targets_Plex = [], Targets_Emby = []\<rparr>"

definition default_config :: config where
  "default_config = zero_config\<lparr>MinimumAge := 10 * Minute, ScanDelay := 5 * Second, Port := 3030\<rparr>"

record cli_flags =
  cli_Config :: string
  cli_Database :: string
  cli_Log :: string
  cli_Verbosity :: int

record processor_Config =
  proc_Anchors :: "string list"
  proc_DatastorePath :: string
  proc_MinimumAge :: int

subsection \<open>Strict YAML decoding\<close>

text \<open>
  The YAML document, as the decoder of \<open>gopkg.in/yaml.v2\<close> sees it after parsing.
  \<open>Unreadable\<close> stands for every file on which \<open>Decode\<close> returns an error before it
  reaches a key (a syntax error, no document at all); \<open>TopLevel\<close> is a document whose
  top-level node is a mapping.
\<close>

datatype yaml = YNull | YScalar string | YSeq "yaml list" | YMap "(string \<times> yaml) list"

datatype document = Unreadable error | TopLevel "(string \<times> yaml) list"

text \<open>
  Unmarshalling a node into a field whose type is a scalar, a slice or a struct of
  another package is the library's and those packages' business: a parameter.
\<close>

record decoders =
  dec_int :: "yaml \<Rightarrow> error + int"
  dec_duration :: "yaml \<Rightarrow> error + int"
  dec_string :: "yaml \<Rightarrow> error + string"
  dec_strings :: "yaml \<Rightarrow> error + string list"
  dec_trigger :: "string \<Rightarrow> yaml \<Rightarrow> error + trigger_Config"
  dec_triggers :: "string \<Rightarrow> yaml \<Rightarrow> error + trigger_Config list"
  dec_bernard :: "yaml \<Rightarrow> error + bernard_Config list"
  dec_plex :: "yaml \<Rightarrow> error + plex_Config list"
  dec_emby :: "yaml \<Rightarrow> error + emby_Config list"

definition leaf :: "(yaml \<Rightarrow> error + 'a) \<Rightarrow> ('a \<Rightarrow> 'c \<Rightarrow> 'c) \<Rightarrow> yaml \<Rightarrow> 'c \<Rightarrow> 'c \<times> error list" where
  "leaf dec upd v c = (case dec v of Inl e \<Rightarrow> (c, [e]) | Inr a \<Rightarrow> (upd a c, []))"

text \<open>
  A mapping node decoded into a struct with \<open>SetStrict(true)\<close>. The decoder walks the
  keys in order and collects its errors: a key that names no field of the struct is
  an error, a key seen before is an error, and a key that names a field unmarshals its
  value into that field. A field no key names is left as it was.
\<close>

fun mappingStruct ::
  "(string \<times> (yaml \<Rightarrow> 'c \<Rightarrow> 'c \<times> error list)) list \<Rightarrow> string list \<Rightarrow> (string \<times> yaml) list
     \<Rightarrow> 'c \<Rightarrow> 'c \<times> error list" where
  "mappingStruct fs seen [] c = (c, [])"
| "mappingStruct fs seen ((k, v) # kvs) c =
     (case map_of fs k of
        None \<Rightarrow>
          (case mappingStruct fs seen kvs c of
             (c', errs) \<Rightarrow> (c', Opaque (''field '' @ k @ '' not found in type'') # errs))
      | Some put \<Rightarrow>
          if k \<in> set seen then
            (case mappingStruct fs seen kvs c of
               (c', errs) \<Rightarrow> (c', Opaque (''field '' @ k @ '' already set in type'') # errs))
          else
            (case put v c of
               (c1, errs1) \<Rightarrow>
                 (case mappingStruct fs (k # seen) kvs c1 of
                    (c', errs) \<Rightarrow> (c', errs1 @ errs))))"

definition struct ::
  "(string \<times> (yaml \<Rightarrow> 'c \<Rightarrow> 'c \<times> error list)) list \<Rightarrow> ('c \<Rightarrow> 'c) \<Rightarrow> yaml \<Rightarrow> 'c \<Rightarrow> 'c \<times> error list" where
  "struct fs zero v c =
     (case v of
        YMap kvs \<Rightarrow> mappingStruct fs [] kvs c
      | YNull \<Rightarrow> (zero c, [])
      | _ \<Rightarrow> (c, [Opaque ''cannot unmarshal into struct'']))"

definition auth_fields :: "decoders \<Rightarrow> (string \<times> (yaml \<Rightarrow> config \<Rightarrow> config \<times> error list)) list" where
  "auth_fields dec =
     [(''username'', leaf (dec_string dec) (\<lambda>a c. c\<lparr>Auth_Username := a\<rparr>)),
      (''password'', leaf (dec_string dec) (\<lambda>a c. c\<lparr>Auth_Password := a\<rparr>))]"

definition triggers_fields :: "decoders \<Rightarrow> (string \<times> (yaml \<Rightarrow> config \<Rightarrow> config \<times> error list)) list" where
  "triggers_fields dec =
     [(''manual'', leaf (dec_trigger dec ''manual'') (\<lambda>a c. c\<lparr>Triggers_Manual := a\<rparr>)),
      (''bernard'', leaf (dec_bernard dec) (\<lambda>a c. c\<lparr>Triggers_Bernard := a\<rparr>)),
      (''inotify'', leaf (dec_triggers dec ''inotify'') (\<lambda>a c. c\<lparr>Triggers_Inotify := a\<rparr>)),
      (''lidarr'', leaf (dec_triggers dec ''lidarr'') (\<lambda>a c. c\<lparr>Triggers_Lidarr := a\<rparr>)),
      (''radarr'', leaf (dec_triggers dec ''radarr'') (\<lambda>a c. c\<lparr>Triggers_Radarr := a\<rparr>)),
      (''sonarr'', leaf (dec_triggers dec ''sonarr'') (\<lambda>a c. c\<lparr>Triggers_Sonarr := a\<rparr>))]"

definition targets_fields :: "decoders \<Rightarrow> (string \<times> (yaml \<Rightarrow> config \<Rightarrow> config \<times> error list)) list" where
  "targets_fields dec =
     [(''plex'', leaf (dec_plex dec) (\<lambda>a c. c\<lparr>Targets_Plex := a\<rparr>)),
      (''emby'', leaf (dec_emby dec) (\<lambda>a c. c\<lparr>Targets_Emby := a\<rparr>))]"

definition config_fields :: "decoders \<Rightarrow> (string \<times> (yaml \<Rightarrow> config \<Rightarrow> config \<times> error list)) list" where
  "config_fields dec =
     [(''port'', leaf (dec_int dec) (\<lambda>a c. c\<lparr>Port := a\<rparr>)),
      (''minimum-age'', leaf (dec_duration dec) (\<lambda>a c. c\<lparr>MinimumAge := a\<rparr>)),
      (''scan-delay'', leaf (dec_duration dec) (\<lambda>a c. c\<lparr>ScanDelay := a\<rparr>)),
      (''anchors'', leaf (dec_strings dec) (\<lambda>a c. c\<lparr>Anchors := a\<rparr>)),
      (''authentication'',
         struct (auth_fields dec) (\<lambda>c. c\<lparr>Auth_Username := [], Auth_Password := []\<rparr>)),
      (''triggers'',
         struct (triggers_fields dec)
           (\<lambda>c. c\<lparr>Triggers_Manual := Triggers_Manual zero_config, Triggers_Bernard := [],
                   Triggers_Inotify := [], Triggers_Lidarr := [], Triggers_Radarr := [],
                   Triggers_Sonarr := []\<rparr>)),
      (''targets'',
         struct (targets_fields dec) (\<lambda>c. c\<lparr>Targets_Plex := [], Targets_Emby := []\<rparr>))]"

text \<open>\<open>decoder.Decode(&c)\<close> after \<open>decoder.SetStrict(true)\<close>: the error, and \<open>c\<close> afterwards.\<close>

definition Decode :: "decoders \<Rightarrow> document \<Rightarrow> config \<Rightarrow> error option \<times> config" where
  "Decode dec doc c =
     (case doc of
        Unreadable err \<Rightarrow> (Some err, c)
      | TopLevel kvs \<Rightarrow>
          (case mappingStruct (config_fields dec) [] kvs c of
             (c', errs) \<Rightarrow>
               (if errs = [] then None else Some (Opaque ''yaml: unmarshal errors''), c')))"

subsection \<open>Start-up\<close>

datatype any_target = PlexTarget target | EmbyTarget emby_Config

record request =
  req_path :: string
  req_body :: string

text \<open>
  Everything \<open>main\<close> calls that is declared outside the sources, over the same world
  \<open>'w\<close>: the constructors (only whether they fail matters to \<open>main\<close>), the two
  processor methods of the driver loop, the handler the mux holds for a pattern
  (\<open>logHandler(authHandler(trigger(proc.Add)))\<close>), and what a daemon trigger's
  goroutine does when it fires.
\<close>

record 'w main_env =
  Validate :: "'w \<Rightarrow> error option \<times> 'w"
  os_Open :: "string \<Rightarrow> 'w \<Rightarrow> (error + document) \<times> 'w"
  unmarshal :: decoders
  processor_New :: "processor_Config \<Rightarrow> 'w \<Rightarrow> error option \<times> 'w"
  bernard_New :: "bernard_Config \<Rightarrow> 'w \<Rightarrow> error option \<times> 'w"
  inotify_New :: "trigger_Config \<Rightarrow> 'w \<Rightarrow> error option \<times> 'w"
  manual_New :: "trigger_Config \<Rightarrow> 'w \<Rightarrow> error option \<times> 'w"
  lidarr_New :: "trigger_Config \<Rightarrow> 'w \<Rightarrow> error option \<times> 'w"
  radarr_New :: "trigger_Config \<Rightarrow> 'w \<Rightarrow> error option \<times> 'w"
  sonarr_New :: "trigger_Config \<Rightarrow> 'w \<Rightarrow> error option \<times> 'w"
  emby_New :: "emby_Config \<Rightarrow> 'w \<Rightarrow> error option \<times> 'w"
  plex :: "'w plex_env"
  CheckAvailability :: "any_target list \<Rightarrow> 'w \<Rightarrow> error option \<times> 'w"
  Process :: "any_target list \<Rightarrow> 'w \<Rightarrow> error option \<times> 'w"
  handler :: "string \<Rightarrow> request \<Rightarrow> 'w \<Rightarrow> int \<times> 'w"
  daemon_trigger :: "string \<Rightarrow> 'w \<Rightarrow> 'w"

text \<open>\<open>log.Fatal()...Msg(msg)\<close>: the entry is written and the process exits with code 1.\<close>

definition fatal :: "string \<Rightarrow> 'w st \<Rightarrow> 'a outcome \<times> 'w st" where
  "fatal msg s = (Exits 1, emit (Log FatalLevel msg) s)"

definition calling :: "string \<Rightarrow> ('w \<Rightarrow> 'r \<times> 'w) \<Rightarrow> 'w st \<Rightarrow> 'r \<times> 'w st" where
  "calling name f s = (case f (world s) of (r, w) \<Rightarrow> (r, emit (Called name) (s\<lparr>world := w\<rparr>)))"

text \<open>The pattern \<open>x, err := pkg.New(t); if err != nil { log.Fatal()... }\<close>.\<close>

definition try_new :: "string \<Rightarrow> string \<Rightarrow> ('w \<Rightarrow> error option \<times> 'w) \<Rightarrow> 'w st \<Rightarrow> unit outcome \<times> 'w st" where
  "try_new name msg f s =
     (case calling name f s of
        (Some err, s1) \<Rightarrow> fatal msg s1
      | (None, s1) \<Rightarrow> (Returns (), s1))"

definition logging :: "level \<Rightarrow> string \<Rightarrow> 'w st \<Rightarrow> unit outcome \<times> 'w st" where
  "logging l msg s = (Returns (), emit (Log l msg) s)"

fun start_bernard :: "'w main_env \<Rightarrow> cli_flags \<Rightarrow> bernard_Config list \<Rightarrow> 'w st \<Rightarrow> unit outcome \<times> 'w st" where
  "start_bernard env cli [] s = (Returns (), s)"
| "start_bernard env cli (t # ts) s =
     (let t' = (if DatastorePath t = [] then t\<lparr>DatastorePath := cli_Database cli\<rparr> else t) in
      case try_new ''bernard.New'' ''Failed initialising trigger'' (bernard_New env t') s of
        (Returns _, s1) \<Rightarrow> start_bernard env cli ts (emit (Go ''bernard'') s1)
      | (Panics p, s1) \<Rightarrow> (Panics p, s1)
      | (Exits n, s1) \<Rightarrow> (Exits n, s1))"

fun start_inotify :: "'w main_env \<Rightarrow> trigger_Config list \<Rightarrow> 'w st \<Rightarrow> unit outcome \<times> 'w st" where
  "start_inotify env [] s = (Returns (), s)"
| "start_inotify env (t # ts) s =
     (case try_new ''inotify.New'' ''Failed initialising trigger'' (inotify_New env t) s of
        (Returns _, s1) \<Rightarrow> start_inotify env ts (emit (Go ''inotify'') s1)
      | (Panics p, s1) \<Rightarrow> (Panics p, s1)
      | (Exits n, s1) \<Rightarrow> (Exits n, s1))"

text \<open>\<open>mux.Handle(pattern, h)\<close> panics when the pattern is registered already.\<close>

definition mux_Handle :: "string \<Rightarrow> string list \<Rightarrow> 'w st \<Rightarrow> string list outcome \<times> 'w st" where
  "mux_Handle pattern mux s =
     (if pattern \<in> set mux then (Panics (MultipleRegistrations pattern), s)
      else (Returns (mux @ [pattern]), emit (Handle pattern) s))"

text \<open>The three loops over \<open>c.Triggers.Lidarr\<close>, \<open>c.Triggers.Radarr\<close> and \<open>c.Triggers.Sonarr\<close>.\<close>

fun register_triggers ::
  "string \<Rightarrow> (trigger_Config \<Rightarrow> 'w \<Rightarrow> error option \<times> 'w) \<Rightarrow> trigger_Config list \<Rightarrow> string list
     \<Rightarrow> 'w st \<Rightarrow> string list outcome \<times> 'w st" where
  "register_triggers name new [] mux s = (Returns mux, s)"
| "register_triggers name new (t # ts) mux s =
     (case try_new name ''Failed initialising trigger'' (new t) s of
        (Returns _, s1) \<Rightarrow>
          (case mux_Handle (''/triggers/'' @ trigger_Name t) mux s1 of
             (Returns mux', s2) \<Rightarrow> register_triggers name new ts mux' s2
           | (Panics p, s2) \<Rightarrow> (Panics p, s2)
           | (Exits n, s2) \<Rightarrow> (Exits n, s2))
      | (Panics p, s1) \<Rightarrow> (Panics p, s1)
      | (Exits n, s1) \<Rightarrow> (Exits n, s1))"

fun init_plex :: "'w main_env \<Rightarrow> plex_Config list \<Rightarrow> any_target list \<Rightarrow> 'w st \<Rightarrow> any_target list outcome \<times> 'w st" where
  "init_plex env [] targets s = (Returns targets, s)"
| "init_plex env (t # ts) targets s =
     (case New (plex env) t s of
        (Inl err, s1) \<Rightarrow> fatal ''Failed initialising target'' s1
      | (Inr tp, s1) \<Rightarrow> init_plex env ts (targets @ [PlexTarget tp]) s1)"

fun init_emby :: "'w main_env \<Rightarrow> emby_Config list \<Rightarrow> any_target list \<Rightarrow> 'w st \<Rightarrow> any_target list outcome \<times> 'w st" where
  "init_emby env [] targets s = (Returns targets, s)"
| "init_emby env (t # ts) targets s =
     (case calling ''emby.New'' (emby_New env t) s of
        (Some err, s1) \<Rightarrow> fatal ''Failed initialising target'' s1
      | (None, s1) \<Rightarrow> init_emby env ts (targets @ [EmbyTarget t]) s1)"

text \<open>The condition of the warning about webhooks without authentication.\<close>

definition auth_warning :: "config \<Rightarrow> bool" where
  "auth_warning c =
     ((Auth_Username c = [] \<or> Auth_Password c = []) \<and>
      0 < length (Triggers_Radarr c) + length (Triggers_Sonarr c))"

text \<open>
  \<open>main\<close> from \<open>ctx.Validate()\<close> to the line before the driver loop, in four parts.
  First the configuration: the command line is validated, the file is opened and
  decoded strictly into the defaults.
\<close>

definition load_config :: "'w main_env \<Rightarrow> cli_flags \<Rightarrow> 'w st \<Rightarrow> config outcome \<times> 'w st" where
  "load_config env cli =
     and_then (\<lambda>s. case calling ''ctx.Validate'' (Validate env) s of
                      (Some err, s1) \<Rightarrow> (Exits 1, s1)
                    | (None, s1) \<Rightarrow> (Returns (), s1)) (\<lambda>_.
     and_then (\<lambda>s. case calling ''os.Open'' (os_Open env (cli_Config cli)) s of
                      (Inl err, s1) \<Rightarrow> fatal ''Failed opening config'' s1
                    | (Inr doc, s1) \<Rightarrow> (Returns doc, s1)) (\<lambda>doc.
     (\<lambda>s. case Decode (unmarshal env) doc default_config of
             (Some err, c) \<Rightarrow> fatal ''Failed decoding config'' s
           | (None, c) \<Rightarrow> (Returns c, s))))"

text \<open>Then the processor, and the warning about webhooks without authentication.\<close>

definition init_processor :: "'w main_env \<Rightarrow> cli_flags \<Rightarrow> config \<Rightarrow> 'w st \<Rightarrow> unit outcome \<times> 'w st" where
  "init_processor env cli c =
     and_then (try_new ''processor.New'' ''Failed initialising processor''
                 (processor_New env
                    \<lparr>proc_Anchors = Anchors c, proc_DatastorePath = cli_Database cli,
                     proc_MinimumAge = MinimumAge c\<rparr>)) (\<lambda>_.
     and_then (logging InfoLevel ''Initialised processor'') (\<lambda>_.
     if auth_warning c
     then logging WarnLevel ''Webhooks running without authentication''
     else (\<lambda>s. (Returns (), s))))"

text \<open>
  Then the triggers, daemon triggers first; the result is the list of patterns on the
  mux. The goroutine of the HTTP server is started here; the requests it answers and
  its own failure are events of the running daemon below, not of start-up.
\<close>

definition start_triggers :: "'w main_env \<Rightarrow> cli_flags \<Rightarrow> config \<Rightarrow> 'w st \<Rightarrow> string list outcome \<times> 'w st" where
  "start_triggers env cli c =
     and_then (start_bernard env cli (Triggers_Bernard c)) (\<lambda>_.
     and_then (start_inotify env (Triggers_Inotify c)) (\<lambda>_.
     and_then (try_new ''manual.New'' ''Failed initialising trigger''
                 (manual_New env (Triggers_Manual c))) (\<lambda>_.
     and_then (mux_Handle ''/triggers/manual'' []) (\<lambda>mux0.
     and_then (register_triggers ''lidarr.New'' (lidarr_New env) (Triggers_Lidarr c) mux0) (\<lambda>mux1.
     and_then (register_triggers ''radarr.New'' (radarr_New env) (Triggers_Radarr c) mux1) (\<lambda>mux2.
     and_then (register_triggers ''sonarr.New'' (sonarr_New env) (Triggers_Sonarr c) mux2) (\<lambda>mux3.
     and_then (\<lambda>s. (Returns (), emit (Go ''http.ListenAndServe'') s)) (\<lambda>_.
     and_then (logging InfoLevel ''Initialised triggers'') (\<lambda>_.
     (\<lambda>s. (Returns mux3, s)))))))))))"

text \<open>Then the targets, plex before emby.\<close>

definition start_targets :: "'w main_env \<Rightarrow> config \<Rightarrow> 'w st \<Rightarrow> any_target list outcome \<times> 'w st" where
  "start_targets env c =
     and_then (init_plex env (Targets_Plex c) []) (\<lambda>targets0.
     and_then (init_emby env (Targets_Emby c) targets0) (\<lambda>targets.
     and_then (logging InfoLevel ''Initialised targets'') (\<lambda>_.
     and_then (logging InfoLevel ''Processor started'') (\<lambda>_.
     (\<lambda>s. (Returns targets, s))))))"

text \<open>Start-up returns the decoded configuration, the targets and the patterns on the mux.\<close>

definition startup ::
  "'w main_env \<Rightarrow> cli_flags \<Rightarrow> 'w st \<Rightarrow> (config \<times> any_target list \<times> string list) outcome \<times> 'w st" where
  "startup env cli =
     and_then (load_config env cli) (\<lambda>c.
     and_then (init_processor env cli c) (\<lambda>_.
     and_then (start_triggers env cli c) (\<lambda>mux.
     and_then (start_targets env c) (\<lambda>targets.
     (\<lambda>s. (Returns (c, targets, mux), s))))))"

subsection \<open>The driver loop and the goroutines beside it\<close>

text \<open>
  The process after start-up. \<open>Running\<close>: the main goroutine is in the \<open>for\<close> loop.
  \<open>Stalled\<close>: it is blocked in \<open>select {}\<close>, which never returns; the other goroutines
  go on. \<open>Exited n\<close>: the process has ended with code \<open>n\<close>, and every goroutine with it.
\<close>

datatype status = Running | Stalled | Exited int

record 'w daemon =
  status :: status
  targetsAvailable :: bool
  io :: "'w st"

text \<open>\<open>err = proc.Process(targets)\<close> and the \<open>switch\<close> after it.\<close>

definition process_pass :: "'w main_env \<Rightarrow> config \<Rightarrow> any_target list \<Rightarrow> 'w daemon \<Rightarrow> 'w daemon" where
  "process_pass env c targets d =
     (case Process env targets (world (io d)) of
        (err, w) \<Rightarrow>
          let s1 = emit (Processed err) ((io d)\<lparr>world := w\<rparr>) in
          (case err of
             None \<Rightarrow> d\<lparr>io := emit (Sleep (ScanDelay c)) s1\<rparr>
           | Some e \<Rightarrow>
               if errors_Is e ErrNoScans then
                 d\<lparr>io := emit (Sleep (15 * Second))
                          (emit (Log TraceLevel ''No scans are available, retrying in 15 seconds...'') s1)\<rparr>
               else if errors_Is e ErrAnchorUnavailable then
                 d\<lparr>io := emit (Sleep (15 * Second))
                          (emit (Log ErrorLevel ''Not all anchor files are available, retrying in 15 seconds...'') s1)\<rparr>
               else if errors_Is e ErrTargetUnavailable then
                 d\<lparr>targetsAvailable := False,
                   io := emit (Sleep (15 * Second))
                          (emit (Log ErrorLevel ''Not all targets are available, retrying in 15 seconds...'') s1)\<rparr>
               else if errors_Is e ErrFatal then
                 d\<lparr>status := Stalled,
                   io := emit (Log ErrorLevel ''Fatal error occurred while processing targets, processor stopped, triggers will continue...'') s1\<rparr>
               else
                 d\<lparr>status := Exited 1,
                   io := emit (Log FatalLevel ''Failed processing targets'') s1\<rparr>))"

text \<open>One iteration of \<open>for { ... }\<close>, entered with the main goroutine running.\<close>

definition iteration :: "'w main_env \<Rightarrow> config \<Rightarrow> any_target list \<Rightarrow> 'w daemon \<Rightarrow> 'w daemon" where
  "iteration env c targets d =
     (if \<not> targetsAvailable d then
        (case CheckAvailability env targets (world (io d)) of
           (err, w) \<Rightarrow>
             let s1 = emit (CheckedAvailability err) ((io d)\<lparr>world := w\<rparr>) in
             (case err of
                None \<Rightarrow> process_pass env c targets (d\<lparr>targetsAvailable := True, io := s1\<rparr>)
              | Some e \<Rightarrow>
                  if errors_Is e ErrFatal then
                    d\<lparr>status := Stalled,
                      io := emit (Log ErrorLevel ''Fatal error occurred while checking target availability, processor stopped, triggers will continue...'') s1\<rparr>
                  else
                    d\<lparr>io := emit (Sleep (15 * Second))
                             (emit (Log ErrorLevel ''Not all targets are available, retrying in 15 seconds...'') s1)\<rparr>))
      else process_pass env c targets d)"

text \<open>
  The goroutines interleave; an execution is a list of events. \<open>Tick\<close>: the main
  goroutine runs one iteration of its loop. \<open>Request\<close>: the server goroutine answers a
  request. \<open>TriggerFires\<close>: the goroutine of a daemon trigger acts. \<open>ListenFailed\<close>:
  \<open>http.ListenAndServe\<close> returned an error in the server goroutine, which calls
  \<open>log.Fatal\<close>.
\<close>

datatype event = Tick | Request request | TriggerFires string | ListenFailed error

definition serve :: "'w main_env \<Rightarrow> string list \<Rightarrow> request \<Rightarrow> 'w st \<Rightarrow> 'w st" where
  "serve env mux rq s =
     (if req_path rq \<in> set mux then
        (case handler env (req_path rq) rq (world s) of
           (code, w) \<Rightarrow> emit (Served (req_path rq) code) (s\<lparr>world := w\<rparr>))
      else emit (Served (req_path rq) 404) s)"

text \<open>What the goroutines other than the main one do on an event.\<close>

definition beside :: "'w main_env \<Rightarrow> string list \<Rightarrow> event \<Rightarrow> 'w st \<Rightarrow> 'w st" where
  "beside env mux ev s =
     (case ev of
        Request rq \<Rightarrow> serve env mux rq s
      | TriggerFires k \<Rightarrow> s\<lparr>world := daemon_trigger env k (world s)\<rparr>
      | _ \<Rightarrow> s)"

definition step ::
  "'w main_env \<Rightarrow> config \<Rightarrow> any_target list \<Rightarrow> string list \<Rightarrow> event \<Rightarrow> 'w daemon \<Rightarrow> 'w daemon" where
  "step env c targets mux ev d =
     (case status d of
        Exited n \<Rightarrow> d
      | _ \<Rightarrow>
          (case ev of
             Tick \<Rightarrow> (if status d = Running then iteration env c targets d else d)
           | ListenFailed err \<Rightarrow>
               d\<lparr>status := Exited 1,
                 io := emit (Log FatalLevel ''Failed starting web server'') (io d)\<rparr>
           | _ \<Rightarrow> d\<lparr>io := beside env mux ev (io d)\<rparr>))"

definition run ::
  "'w main_env \<Rightarrow> config \<Rightarrow> any_target list \<Rightarrow> string list \<Rightarrow> event list \<Rightarrow> 'w daemon \<Rightarrow> 'w daemon" where
  "run env c targets mux evs d = foldl (\<lambda>d' ev. step env c targets mux ev d') d evs"

text \<open>The whole program: start-up, then the events. An unrecovered panic exits with code 2.\<close>

definition main :: "'w main_env \<Rightarrow> cli_flags \<Rightarrow> event list \<Rightarrow> 'w st \<Rightarrow> 'w daemon" where
  "main env cli evs s =
     (case startup env cli s of
        (Returns (c, targets, mux), s1) \<Rightarrow>
          run env c targets mux evs \<lparr>status = Running, targetsAvailable = False, io = s1\<rparr>
      | (Panics p, s1) \<Rightarrow> \<lparr>status = Exited 2, targetsAvailable = False, io = s1\<rparr>
      | (Exits n, s1) \<Rightarrow> \<lparr>status = Exited n, targetsAvailable = False, io = s1\<rparr>)"

section \<open>Notions the properties are stated with\<close>

subsection \<open>Decimal literals\<close>



subsection \<open>Requests sent to the Plex API\<close>

text \<open>The scan requests among the effects of a run: folder and library ID, in order.\<close>

fun scan_requests :: "effect list \<Rightarrow> (string \<times> int) list" where
  "scan_requests [] = []"
| "scan_requests (ApiScan f i # es) = (f, i) # scan_requests es"
| "scan_requests (e # es) = scan_requests es"

text \<open>The libraries of a target whose path is a prefix of a folder.\<close>

definition matching :: "target \<Rightarrow> string \<Rightarrow> library list" where
  "matching t folder = filter (\<lambda>l. HasPrefix folder (lib_Path l)) (libraries t)"

text \<open>A computation that sends no scan request, and one that sends a prefix of a list.\<close>

definition quiet :: "('w st \<Rightarrow> 'a outcome \<times> 'w st) \<Rightarrow> bool" where
  "quiet m = (\<forall>s. scan_requests (trace (snd (m s))) = scan_requests (trace s))"

definition sends :: "(string \<times> int) list \<Rightarrow> ('w st \<Rightarrow> 'a outcome \<times> 'w st) \<Rightarrow> bool" where
  "sends L m = (\<forall>s. \<exists>n. scan_requests (trace (snd (m s))) = scan_requests (trace s) @ take n L)"

subsection \<open>A concrete target and its surroundings\<close>

text \<open>
  Modelled from the spec: \<open>autoscan.NewRewriter\<close> is outside the sources. Section 3 of
  the specification describes a rewriter as a list of (from-prefix, to-prefix) pairs,
  a path that matches no rule being left unchanged. It serves the examples only; the
  properties are proved for any rewriter.
\<close>

definition rewriter_of :: "rewrite_rule list \<Rightarrow> string \<Rightarrow> string" where
  "rewriter_of rules p =
     (case filter (\<lambda>r. HasPrefix p (From r)) rules of
        [] \<Rightarrow> p
      | r # _ \<Rightarrow> To r @ drop (length (From r)) p)"

definition movies_library :: library where
  "movies_library = \<lparr>lib_ID = 1, lib_Name = ''Movies'', lib_Path = ''/media/Movies''\<rparr>"

definition tv_library :: library where
  "tv_library = \<lparr>lib_ID = 2, lib_Name = ''TV'', lib_Path = ''/media/TV''\<rparr>"

text \<open>Every request succeeds: both refresh endpoints answer \<open>OK\<close>, Plex runs 1.20.1.\<close>

definition answering_env :: "'w plex_env" where
  "answering_env =
     \<lparr>client_Do = (\<lambda>u d w. (Inr ''OK'', w)),
      api_Version = (\<lambda>u k w. (Inr ''1.20.1'', w)),
      api_Libraries = (\<lambda>u k w. (Inr [movies_library], w)),
      api_Scan = (\<lambda>u k f i w. (None, w)),
      NewRewriter = (\<lambda>rules. Inr (rewriter_of rules))\<rparr>"

text \<open>The refresh endpoints cannot be reached: \<open>client.Do\<close> returns a transport error.\<close>

definition refusing_env :: "'w plex_env" where
  "refusing_env = answering_env\<lparr>client_Do := (\<lambda>u d w. (Inl (Opaque ''connection refused''), w))\<rparr>"

text \<open>The Plex server runs version 1.19.5.\<close>

definition outdated_env :: "'w plex_env" where
  "outdated_env = answering_env\<lparr>api_Version := (\<lambda>u k w. (Inr ''1.19.5'', w))\<rparr>"

definition movies_Config :: plex_Config where
  "movies_Config =
     \<lparr>URL = ''http://plex:32400'', Token = ''token'',
      Rewrite = [\<lparr>From = ''/downloads'', To = ''/media''\<rparr>], Verbosity = []\<rparr>"

definition movies_target :: target where
  "movies_target =
     \<lparr>url = ''http://plex:32400'', token = ''token'', libraries = [movies_library],
      rewrite = rewriter_of [\<lparr>From = ''/downloads'', To = ''/media''\<rparr>]\<rparr>"

definition tv_target :: target where
  "tv_target = movies_target\<lparr>libraries := [tv_library]\<rparr>"

definition scan_X :: scan where
  "scan_X = \<lparr>Folder = ''/downloads/Movies/X'', Filename = ''x.mkv'', Priority = 0, Time = 0,
             Retries = 0\<rparr>"

definition st0 :: "unit st" where
  "st0 = \<lparr>world = (), trace = []\<rparr>"

subsection \<open>Traces of the driver loop\<close>

text \<open>The effects a daemon has added to its trace since an earlier state.\<close>

definition fresh :: "'w daemon \<Rightarrow> 'w daemon \<Rightarrow> effect list" where
  "fresh d d' = drop (length (trace (io d))) (trace (io d'))"

text \<open>The two calls of the driver loop among the effects.\<close>

fun is_call :: "effect \<Rightarrow> bool" where
  "is_call (CheckedAvailability r) = True"
| "is_call (Processed r) = True"
| "is_call e = False"

text \<open>An error that matches none of the four sentinels the driver loop tests for.\<close>

definition unclassified :: "error \<Rightarrow> bool" where
  "unclassified e =
     (\<not> errors_Is e ErrNoScans \<and> \<not> errors_Is e ErrAnchorUnavailable \<and>
      \<not> errors_Is e ErrTargetUnavailable \<and> \<not> errors_Is e ErrFatal)"




subsection \<open>Keys of the configuration file\<close>

text \<open>The keys of \<open>config\<close> by their \<open>yaml\<close> tags, and those of its three nested structs.\<close>

definition config_keys :: "string list" where
  "config_keys =
     [''port'', ''minimum-age'', ''scan-delay'', ''anchors'', ''authentication'', ''triggers'',
      ''targets'']"

definition section_keys :: "(string \<times> string list) list" where
  "section_keys =
     [(''authentication'', [''username'', ''password'']),
      (''triggers'', [''manual'', ''bernard'', ''inotify'', ''lidarr'', ''radarr'', ''sonarr'']),
      (''targets'', [''plex'', ''emby''])]"

subsection \<open>A simulated daemon\<close>

text \<open>
  A world for the examples: it counts the calls of \<open>CheckAvailability\<close> and of
  \<open>Process\<close>, and keeps what the triggers have queued.
\<close>

record sim_world =
  probes :: nat
  passes :: nat
  queued :: "string list"

text \<open>
  Decoders for the examples: an integer is a decimal scalar, a duration a number of
  seconds followed by \<open>s\<close>, a list of triggers a sequence of mappings with a \<open>name\<close>,
  a list of plex targets a sequence of mappings with \<open>url\<close> and \<open>token\<close>.
\<close>

definition scalar_of :: "(string \<times> yaml) list \<Rightarrow> string \<Rightarrow> string" where
  "scalar_of kvs k = (case map_of kvs k of Some (YScalar v) \<Rightarrow> v | _ \<Rightarrow> [])"

definition text_int :: "yaml \<Rightarrow> error + int" where
  "text_int v =
     (case v of
        YScalar x \<Rightarrow>
          (case Atoi x of
             (n, None) \<Rightarrow> Inr n
           | (n, Some e) \<Rightarrow> Inl (Opaque ''cannot unmarshal !!str into int''))
      | _ \<Rightarrow> Inl (Opaque ''cannot unmarshal into int''))"

definition text_duration :: "yaml \<Rightarrow> error + int" where
  "text_duration v =
     (case v of
        YScalar x \<Rightarrow>
          (if HasSuffix x ''s'' then
             (case Atoi (TrimSuffix x ''s'') of
                (n, None) \<Rightarrow> Inr (n * Second)
              | (n, Some e) \<Rightarrow> Inl (Opaque ''time: invalid duration''))
           else Inl (Opaque ''time: missing unit in duration''))
      | _ \<Rightarrow> Inl (Opaque ''cannot unmarshal into time.Duration''))"

definition text_string :: "yaml \<Rightarrow> error + string" where
  "text_string v = (case v of YScalar x \<Rightarrow> Inr x | _ \<Rightarrow> Inl (Opaque ''cannot unmarshal into string''))"

definition text_list :: "(yaml \<Rightarrow> 'a) \<Rightarrow> yaml \<Rightarrow> error + 'a list" where
  "text_list f v =
     (case v of
        YSeq ys \<Rightarrow> Inr (map f ys)
      | YNull \<Rightarrow> Inr []
      | _ \<Rightarrow> Inl (Opaque ''cannot unmarshal into slice''))"

definition text_trigger :: "yaml \<Rightarrow> trigger_Config" where
  "text_trigger v =
     (case v of
        YMap kvs \<Rightarrow> \<lparr>trigger_Name = scalar_of kvs ''name'', trigger_Verbosity = scalar_of kvs ''verbosity''\<rparr>
      | _ \<Rightarrow> \<lparr>trigger_Name = [], trigger_Verbosity = []\<rparr>)"

definition text_plex :: "yaml \<Rightarrow> plex_Config" where
  "text_plex v =
     (case v of
        YMap kvs \<Rightarrow> \<lparr>URL = scalar_of kvs ''url'', Token = scalar_of kvs ''token'', Rewrite = [],
                     Verbosity = scalar_of kvs ''verbosity''\<rparr>
      | _ \<Rightarrow> \<lparr>URL = [], Token = [], Rewrite = [], Verbosity = []\<rparr>)"

definition text_decoders :: decoders where
  "text_decoders =
     \<lparr>dec_int = text_int,
      dec_duration = text_duration,
      dec_string = text_string,
      dec_strings = text_list (\<lambda>y. case y of YScalar x \<Rightarrow> x | _ \<Rightarrow> []),
      dec_trigger = (\<lambda>kind v. Inr (text_trigger v)),
      dec_triggers = (\<lambda>kind. text_list text_trigger),
      dec_bernard = text_list (\<lambda>y. \<lparr>DatastorePath = []\<rparr>),
      dec_plex = text_list text_plex,
      dec_emby = text_list (\<lambda>y. \<lparr>emby_URL = []\<rparr>)\<rparr>"

text \<open>
  The simulated surroundings of \<open>main\<close>: the configuration file holds \<open>doc\<close>, every
  constructor of another package succeeds, the \<open>n\<close>-th call of \<open>CheckAvailability\<close>
  returns \<open>avail n\<close> and the \<open>n\<close>-th call of \<open>Process\<close> returns \<open>pass n\<close>, a request is
  accepted with status 200 and its body queued, a daemon trigger queues its name.
\<close>

definition sim_env ::
  "document \<Rightarrow> sim_world plex_env \<Rightarrow> (nat \<Rightarrow> error option) \<Rightarrow> (nat \<Rightarrow> error option) \<Rightarrow> sim_world main_env" where
  "sim_env doc px avail pass =
     \<lparr>Validate = (\<lambda>w. (None, w)),
      os_Open = (\<lambda>path w. (Inr doc, w)),
      unmarshal = text_decoders,
      processor_New = (\<lambda>c w. (None, w)),
      bernard_New = (\<lambda>c w. (None, w)),
      inotify_New = (\<lambda>c w. (None, w)),
      manual_New = (\<lambda>c w. (None, w)),
      lidarr_New = (\<lambda>c w. (None, w)),
      radarr_New = (\<lambda>c w. (None, w)),
      sonarr_New = (\<lambda>c w. (None, w)),
      emby_New = (\<lambda>c w. (None, w)),
      plex = px,
      CheckAvailability = (\<lambda>ts w. (avail (probes w), w\<lparr>probes := Suc (probes w)\<rparr>)),
      Process = (\<lambda>ts w. (pass (passes w), w\<lparr>passes := Suc (passes w)\<rparr>)),
      handler = (\<lambda>pattern rq w. (200, w\<lparr>queued := queued w @ [req_body rq]\<rparr>)),
      daemon_trigger = (\<lambda>kind w. w\<lparr>queued := queued w @ [kind]\<rparr>)\<rparr>"

definition sim_cli :: cli_flags where
  "sim_cli = \<lparr>cli_Config = ''config.yml'', cli_Database = ''autoscan.db'',
              cli_Log = ''activity.log'', cli_Verbosity = 0\<rparr>"

definition sim_st :: "sim_world st" where
  "sim_st = \<lparr>world = \<lparr>probes = 0, passes = 0, queued = []\<rparr>, trace = []\<rparr>"

definition sim_daemon :: "sim_world daemon" where
  "sim_daemon = \<lparr>status = Running, targetsAvailable = False, io = sim_st\<rparr>"

definition request_X :: request where
  "request_X = \<lparr>req_path = ''/triggers/manual'', req_body = ''/downloads/Movies/X''\<rparr>"



definition locked_error :: error where
  "locked_error = Opaque ''database is locked''"

text \<open>Configuration files for the examples.\<close>

definition empty_doc :: document where
  "empty_doc = TopLevel []"

definition plex_doc :: document where
  "plex_doc =
     TopLevel
       [(''targets'',
         YMap [(''plex'', YSeq [YMap [(''url'', YScalar ''http://plex:32400''),
                                      (''token'', YScalar ''token'')]])])]"

definition lidarr_doc :: document where
  "lidarr_doc =
     TopLevel [(''triggers'', YMap [(''lidarr'', YSeq [YMap [(''name'', YScalar ''lidarr'')]])])]"

definition typo_doc :: document where
  "typo_doc = TopLevel [(''port'', YScalar ''8080''), (''minimum_age'', YScalar ''600s'')]"

subsection \<open>The dispatch pass\<close>

text \<open>
  Modelled from the spec: \<open>processor.Process\<close> and the scan store are outside the
  sources. Section 4.1 of the specification gives the store's \<open>DeleteFolder\<close> and
  \<open>IncrementRetries\<close>; section 4.4 gives the pass. Steps 4 and 5, for a cohort already
  withdrawn: each target's \<open>Scan\<close> is called in configuration order; a success
  continues; an error aborts the iteration, bumps the retries of the folder's rows and
  is returned (an error that is neither \<open>TargetUnavailable\<close> nor \<open>Fatal\<close> is treated as
  \<open>TargetUnavailable\<close>); when every target succeeded the folder's rows are deleted and
  the pass returns \<open>nil\<close>. A target is given by its \<open>Scan\<close>.
\<close>

type_synonym 'w scanner = "scan \<Rightarrow> 'w st \<Rightarrow> error option outcome \<times> 'w st"

definition DeleteFolder :: "string \<Rightarrow> scan list \<Rightarrow> scan list" where
  "DeleteFolder F rows = filter (\<lambda>r. Folder r \<noteq> F) rows"

definition IncrementRetries :: "string \<Rightarrow> scan list \<Rightarrow> scan list" where
  "IncrementRetries F rows = map (\<lambda>r. if Folder r = F then r\<lparr>Retries := Retries r + 1\<rparr> else r) rows"

fun fan_out :: "'w scanner list \<Rightarrow> scan \<Rightarrow> 'w st \<Rightarrow> error option outcome \<times> 'w st" where
  "fan_out [] sc s = (Returns None, s)"
| "fan_out (target_Scan # rest) sc s =
     (case target_Scan sc s of
        (Returns None, s1) \<Rightarrow> fan_out rest sc s1
      | (Returns (Some err), s1) \<Rightarrow>
          (Returns (Some (if errors_Is err ErrTargetUnavailable \<or> errors_Is err ErrFatal then err
                          else Wrapf ''scan target: '' (Sentinel ErrTargetUnavailable))), s1)
      | (Panics p, s1) \<Rightarrow> (Panics p, s1)
      | (Exits n, s1) \<Rightarrow> (Exits n, s1))"

definition dispatch ::
  "'w scanner list \<Rightarrow> scan \<Rightarrow> scan list \<Rightarrow> 'w st \<Rightarrow> (error option outcome \<times> scan list) \<times> 'w st" where
  "dispatch targets sc rows s =
     (case fan_out targets sc s of
        (Returns None, s1) \<Rightarrow> ((Returns None, DeleteFolder (Folder sc) rows), s1)
      | (Returns (Some err), s1) \<Rightarrow> ((Returns (Some err), IncrementRetries (Folder sc) rows), s1)
      | (Panics p, s1) \<Rightarrow> ((Panics p, rows), s1)
      | (Exits n, s1) \<Rightarrow> ((Exits n, rows), s1))"

subsection \<open>Scans that return\<close>

text \<open>
  A computation that, when it returns \<open>nil\<close>, has sent exactly the requests \<open>L\<close>, and
  that, when it returns an error, has sent a non-empty prefix of them.
\<close>

definition sends_all :: "(string \<times> int) list \<Rightarrow> ('w st \<Rightarrow> error option outcome \<times> 'w st) \<Rightarrow> bool" where
  "sends_all L m =
     (\<forall>s s'. m s = (Returns None, s') \<longrightarrow> scan_requests (trace s') = scan_requests (trace s) @ L)"

definition sends_some :: "(string \<times> int) list \<Rightarrow> ('w st \<Rightarrow> error option outcome \<times> 'w st) \<Rightarrow> bool" where
  "sends_some L m =
     (\<forall>s s' err. m s = (Returns (Some err), s') \<longrightarrow>
        (\<exists>n. 0 < n \<and> n \<le> length L \<and> scan_requests (trace s') = scan_requests (trace s) @ take n L))"

text \<open>The movies target without rewrite rules, and a second row of the store.\<close>

definition plain_target :: target where
  "plain_target = movies_target\<lparr>rewrite := rewriter_of []\<rparr>"

definition scan_Y :: scan where
  "scan_Y = \<lparr>Folder = ''/downloads/TV/Y'', Filename = ''y.mkv'', Priority = 0, Time = 0,
             Retries = 0\<rparr>"

text \<open>
  A target with two libraries that both contain the folder, and surroundings in which
  the Plex API refuses every scan request.
\<close>

definition media_library :: library where
  "media_library = \<lparr>lib_ID = 3, lib_Name = ''Media'', lib_Path = ''/media''\<rparr>"

definition both_target :: target where
  "both_target = movies_target\<lparr>libraries := [movies_library, media_library]\<rparr>"

definition failing_env :: "'w plex_env" where
  "failing_env = answering_env\<lparr>api_Scan := (\<lambda>u k f i w. (Some (Opaque ''500 Internal Server Error''), w))\<rparr>"

text \<open>The simulated surroundings in which every target is available and every pass succeeds.\<close>

definition idle_env :: "sim_world main_env" where
  "idle_env = sim_env empty_doc answering_env (\<lambda>n. None) (\<lambda>n. None)"

text \<open>
  Simulated surroundings for the driver loop: \<open>Process\<close> always fails with an error of
  no class; \<open>Process\<close> always fails fatally; \<open>CheckAvailability\<close> always fails fatally;
  the first pass finds a target unavailable and the later ones succeed.
\<close>

definition locked_env :: "sim_world main_env" where
  "locked_env = sim_env empty_doc answering_env (\<lambda>n. None) (\<lambda>n. Some locked_error)"




definition manual_mux :: "string list" where
  "manual_mux = [''/triggers/manual'']"

text \<open>
  Simulated daemons started from the example files: one lidarr webhook and no
  authentication; one radarr webhook and no authentication; a mistyped key; one plex
  target whose server runs 1.19.5.
\<close>

definition radarr_doc :: document where
  "radarr_doc =
     TopLevel [(''triggers'', YMap [(''radarr'', YSeq [YMap [(''name'', YScalar ''radarr'')]])])]"

definition lidarr_env :: "sim_world main_env" where
  "lidarr_env = sim_env lidarr_doc answering_env (\<lambda>n. None) (\<lambda>n. None)"

definition radarr_env :: "sim_world main_env" where
  "radarr_env = sim_env radarr_doc answering_env (\<lambda>n. None) (\<lambda>n. None)"

definition typo_env :: "sim_world main_env" where
  "typo_env = sim_env typo_doc answering_env (\<lambda>n. None) (\<lambda>n. None)"

definition outdated_plex_env :: "sim_world main_env" where
  "outdated_plex_env = sim_env plex_doc outdated_env (\<lambda>n. None) (\<lambda>n. None)"

definition lidarr_trigger :: trigger_Config where
  "lidarr_trigger = \<lparr>trigger_Name = ''lidarr'', trigger_Verbosity = []\<rparr>"

definition radarr_trigger :: trigger_Config where
  "radarr_trigger = \<lparr>trigger_Name = ''radarr'', trigger_Verbosity = []\<rparr>"

section \<open>Properties\<close>

subsection \<open>Splitting and parsing\<close>













subsection \<open>Claim C10: what the version check does with malformed versions\<close>




subsection \<open>The plex target\<close>

lemma scan_requests_append: "scan_requests (xs @ ys) = scan_requests xs @ scan_requests ys"
  by (induction xs rule: scan_requests.induct) simp_all

lemma getScanLibrary_Inr:
  "getScanLibrary t folder = Inr libs \<Longrightarrow> libs = matching t folder \<and> libs \<noteq> []"
  by (auto simp: getScanLibrary_def matching_def Let_def split: if_splits)

lemma LastIndex_le: "LastIndex x sep \<le> int (length x)"
  by (induction x) (simp_all add: Let_def)

lemma quiet_rcrefresh: "quiet (rcrefresh env d u)"
  by (auto simp: quiet_def rcrefresh_def emit_def scan_requests_append split: prod.splits sum.splits)

lemma quiet_slice_from: "quiet (slice_from x i)"
  by (simp add: quiet_def slice_from_def)

lemma quiet_return: "quiet (\<lambda>s. (Returns a, s))"
  by (simp add: quiet_def)

lemma quiet_if: "quiet a \<Longrightarrow> quiet b \<Longrightarrow> quiet (if c then a else b)"
  by simp

lemma quiet_and_then:
  assumes "quiet m" and "\<And>a. quiet (f a)"
  shows "quiet (and_then m f)"
  unfolding quiet_def
proof
  fix s
  obtain r s' where M: "m s = (r, s')" by (cases "m s")
  from assms(1) have "scan_requests (trace (snd (m s))) = scan_requests (trace s)"
    unfolding quiet_def by blast
  with M have A: "scan_requests (trace s') = scan_requests (trace s)" by simp
  show "scan_requests (trace (snd (and_then m f s))) = scan_requests (trace s)"
  proof (cases r)
    case (Returns a)
    with M have "and_then m f s = f a s'" by (simp add: and_then_def)
    moreover from assms(2) [of a] have "scan_requests (trace (snd (f a s'))) = scan_requests (trace s')"
      unfolding quiet_def by blast
    ultimately show ?thesis using A by simp
  next
    case (Panics p)
    with M A show ?thesis by (simp add: and_then_def)
  next
    case (Exits n)
    with M A show ?thesis by (simp add: and_then_def)
  qed
qed

lemma sends_and_then:
  assumes "quiet m" and "\<And>a. sends L (f a)"
  shows "sends L (and_then m f)"
  unfolding sends_def
proof
  fix s
  obtain r s' where M: "m s = (r, s')" by (cases "m s")
  from assms(1) have "scan_requests (trace (snd (m s))) = scan_requests (trace s)"
    unfolding quiet_def by blast
  with M have A: "scan_requests (trace s') = scan_requests (trace s)" by simp
  show "\<exists>n. scan_requests (trace (snd (and_then m f s))) = scan_requests (trace s) @ take n L"
  proof (cases r)
    case (Returns a)
    with M have E: "and_then m f s = f a s'" by (simp add: and_then_def)
    from assms(2) [of a] obtain n where
      "scan_requests (trace (snd (f a s'))) = scan_requests (trace s') @ take n L"
      unfolding sends_def by blast
    with E A show ?thesis by auto
  next
    case (Panics p)
    with M A have "scan_requests (trace (snd (and_then m f s))) = scan_requests (trace s) @ take 0 L"
      by (simp add: and_then_def)
    then show ?thesis by blast
  next
    case (Exits k)
    with M A have "scan_requests (trace (snd (and_then m f s))) = scan_requests (trace s) @ take 0 L"
      by (simp add: and_then_def)
    then show ?thesis by blast
  qed
qed

lemma send_scan_requests_trace:
  "\<exists>n. scan_requests (trace (snd (send_scan_requests env t f libs s)))
        = scan_requests (trace s) @ take n (map (\<lambda>l. (f, lib_ID l)) libs)"
proof (induction libs arbitrary: s)
  case Nil
  show ?case by simp
next
  case (Cons lib libs)
  let ?s1 = "emit (ApiScan f (lib_ID lib)) (emit (Log TraceLevel ''Sending scan request'') s)"
  obtain r w where R: "api_Scan env (url t) (token t) f (lib_ID lib) (world s) = (r, w)"
    by (cases "api_Scan env (url t) (token t) f (lib_ID lib) (world s)")
  show ?case
  proof (cases r)
    case (Some err)
    with R have "scan_requests (trace (snd (send_scan_requests env t f (lib # libs) s)))
        = scan_requests (trace s) @ take 1 (map (\<lambda>l. (f, lib_ID l)) (lib # libs))"
      by (simp add: Let_def emit_def scan_requests_append)
    then show ?thesis by blast
  next
    case None
    let ?s2 = "emit (Log InfoLevel ''Scan moved to target'') (?s1\<lparr>world := w\<rparr>)"
    from Cons.IH [of ?s2] obtain n where
      N: "scan_requests (trace (snd (send_scan_requests env t f libs ?s2)))
          = scan_requests (trace ?s2) @ take n (map (\<lambda>l. (f, lib_ID l)) libs)" by blast
    have "scan_requests (trace ?s2) = scan_requests (trace s) @ [(f, lib_ID lib)]"
      by (simp add: emit_def scan_requests_append)
    with N None R have "scan_requests (trace (snd (send_scan_requests env t f (lib # libs) s)))
        = scan_requests (trace s) @ take (Suc n) (map (\<lambda>l. (f, lib_ID l)) (lib # libs))"
      by (simp add: Let_def)
    then show ?thesis by blast
  qed
qed

lemma sends_send_scan_requests:
  "sends (map (\<lambda>l. (f, lib_ID l)) libs) (send_scan_requests env t f libs)"
  unfolding sends_def using send_scan_requests_trace by blast

lemma quiet_refresh_cascade:
  "quiet (if Contains resp ''file does not exist'' then
            and_then (rcrefresh env [(''recursive'', ''false''), (''dir'', base_dir)] refresh_url) (\<lambda>resp2.
            and_then (rcrefresh env [(''recursive'', ''false''), (''dir'', base_dir)] refresh_url2) (\<lambda>_.
            if Contains resp2 ''OK'' then
              and_then (rcrefresh env [(''recursive'', ''true''), (''dir'', s)] refresh_url) (\<lambda>_.
              rcrefresh env [(''recursive'', ''true''), (''dir'', s)] refresh_url2)
            else
              and_then (slice_from base_dir (LastIndex base_dir ''/'')) (\<lambda>base_dirtmp.
              and_then (rcrefresh env [(''recursive'', ''false''), (''dir'', TrimSuffix base_dir base_dirtmp)] refresh_url) (\<lambda>_.
              rcrefresh env [(''recursive'', ''false''), (''dir'', TrimSuffix base_dir base_dirtmp)] refresh_url2))))
          else (\<lambda>s'. (Returns [], s')))"
  by (intro quiet_if quiet_and_then quiet_rcrefresh quiet_slice_from quiet_return)

lemma rewrite_X: "rewrite movies_target (Folder scan_X) = ''/media/Movies/X''"
  by (simp add: movies_target_def scan_X_def rewriter_of_def HasPrefix_def)

lemma rewrite_X_tv: "rewrite tv_target (Folder scan_X) = ''/media/Movies/X''"
  by (simp add: tv_target_def movies_target_def scan_X_def rewriter_of_def HasPrefix_def)

lemma matching_X: "matching movies_target ''/media/Movies/X'' = [movies_library]"
  by (simp add: matching_def movies_target_def movies_library_def HasPrefix_def)

lemma getScanLibrary_X: "getScanLibrary movies_target ''/media/Movies/X'' = Inr [movies_library]"
  by (simp add: getScanLibrary_def movies_target_def movies_library_def HasPrefix_def)

lemma Scan_X_answering:
  "Scan answering_env movies_target scan_X st0 =
     (Returns None,
      \<lparr>world = (),
       trace =
         [Post refresh_url [(''recursive'', ''true''), (''dir'', ''/media/Movies/X'')],
          Post refresh_url2 [(''recursive'', ''true''), (''dir'', ''/media/Movies/X'')],
          Log TraceLevel ''Sending scan request'',
          ApiScan ''/media/Movies/X'' 1,
          Log InfoLevel ''Scan moved to target'']\<rparr>)"
  by (simp add: Scan_def rewrite_X getScanLibrary_X Let_def and_then_def slice_from_def
      rcrefresh_def TrimPrefix_def TrimSuffix_def HasPrefix_def HasSuffix_def
      answering_env_def st0_def emit_def movies_library_def)

subsection \<open>Claim C2: a folder no library contains\<close>

text \<open>
  C2. When no configured library path is a prefix of the rewritten folder, \<open>Scan\<close>
  hands one warning to its logger and returns \<open>nil\<close>; it sends nothing to the refresh
  endpoints or to the Plex API and leaves the world as it was. To the dispatch pass of
  the specification the disclaim is a success like any other: the pass goes on with
  the remaining targets exactly as if the target were not there, and when the
  disclaiming target is the only one the pass returns \<open>nil\<close> and the folder's rows are
  deleted.
\<close>

theorem Scan_disclaims:
  assumes "\<forall>l \<in> set (libraries t). \<not> HasPrefix (rewrite t (Folder sc)) (lib_Path l)"
  shows "Scan env t sc s = (Returns None, emit (Log WarnLevel ''No target libraries found'') s)
         \<and> fan_out (Scan env t # rest) sc s
             = fan_out rest sc (emit (Log WarnLevel ''No target libraries found'') s)
         \<and> dispatch (Scan env t # rest) sc rows s
             = dispatch rest sc rows (emit (Log WarnLevel ''No target libraries found'') s)
         \<and> dispatch [Scan env t] sc rows s
             = ((Returns None, DeleteFolder (Folder sc) rows),
                emit (Log WarnLevel ''No target libraries found'') s)"
proof -
  from assms have "filter (\<lambda>l. HasPrefix (rewrite t (Folder sc)) (lib_Path l)) (libraries t) = []"
    by (simp add: filter_empty_conv)
  then have S: "Scan env t sc s = (Returns None, emit (Log WarnLevel ''No target libraries found'') s)"
    by (simp add: Scan_def getScanLibrary_def Let_def)
  then have F: "fan_out (Scan env t # rest) sc s
             = fan_out rest sc (emit (Log WarnLevel ''No target libraries found'') s)" for rest
    by simp
  then have D: "dispatch (Scan env t # rest) sc rows s
             = dispatch rest sc rows (emit (Log WarnLevel ''No target libraries found'') s)" for rest
    by (simp add: dispatch_def)
  from D [of "[]"] have "dispatch [Scan env t] sc rows s
             = ((Returns None, DeleteFolder (Folder sc) rows),
                emit (Log WarnLevel ''No target libraries found'') s)"
    by (simp add: dispatch_def)
  with S F D show ?thesis by blast
qed

text \<open>
  A target whose only library is \<open>/media/TV\<close>, handed a folder rewritten to
  \<open>/media/Movies/X\<close>, alone and before the movies target; the store holds a row of that
  folder and a row of another.
\<close>

theorem Scan_disclaims_witness:
  "Scan answering_env tv_target scan_X st0
     = (Returns None, \<lparr>world = (), trace = [Log WarnLevel ''No target libraries found'']\<rparr>)
   \<and> dispatch [Scan answering_env tv_target] scan_X [scan_X, scan_Y] st0
       = ((Returns None, [scan_Y]),
          \<lparr>world = (), trace = [Log WarnLevel ''No target libraries found'']\<rparr>)
   \<and> dispatch [Scan answering_env tv_target, Scan answering_env movies_target] scan_X
         [scan_X, scan_Y] st0
       = dispatch [Scan answering_env movies_target] scan_X [scan_X, scan_Y]
           \<lparr>world = (), trace = [Log WarnLevel ''No target libraries found'']\<rparr>"
proof -
  have H: "\<forall>l \<in> set (libraries tv_target). \<not> HasPrefix (rewrite tv_target (Folder scan_X)) (lib_Path l)"
    by (simp add: rewrite_X_tv) (simp add: tv_target_def tv_library_def HasPrefix_def)
  have E: "emit (Log WarnLevel ''No target libraries found'') st0
          = \<lparr>world = (), trace = [Log WarnLevel ''No target libraries found'']\<rparr>"
    by (simp add: emit_def st0_def)
  have R: "DeleteFolder (Folder scan_X) [scan_X, scan_Y] = [scan_Y]"
    by (simp add: DeleteFolder_def scan_X_def scan_Y_def)
  note T = Scan_disclaims [OF H, of answering_env st0 "[Scan answering_env movies_target]" "[scan_X, scan_Y]"]
  from T E have 1: "Scan answering_env tv_target scan_X st0
     = (Returns None, \<lparr>world = (), trace = [Log WarnLevel ''No target libraries found'']\<rparr>)"
    by simp
  from T E R have 2: "dispatch [Scan answering_env tv_target] scan_X [scan_X, scan_Y] st0
       = ((Returns None, [scan_Y]),
          \<lparr>world = (), trace = [Log WarnLevel ''No target libraries found'']\<rparr>)"
    by simp
  from T E have 3: "dispatch [Scan answering_env tv_target, Scan answering_env movies_target] scan_X
         [scan_X, scan_Y] st0
       = dispatch [Scan answering_env movies_target] scan_X [scan_X, scan_Y]
           \<lparr>world = (), trace = [Log WarnLevel ''No target libraries found'']\<rparr>"
    by simp
  from 1 2 3 show ?thesis by blast
qed

subsection \<open>Claim C5: where a target's rewrite rules are applied\<close>

lemma and_then_Returns:
  assumes "and_then m f s = (Returns r, s')"
  obtains a s1 where "m s = (Returns a, s1)" and "f a s1 = (Returns r, s')"
proof -
  obtain x s1 where M: "m s = (x, s1)" by (cases "m s")
  show ?thesis
  proof (cases x)
    case (Returns a)
    with M assms that show ?thesis by (simp add: and_then_def)
  next
    case (Panics p)
    with M assms show ?thesis by (simp add: and_then_def)
  next
    case (Exits n)
    with M assms show ?thesis by (simp add: and_then_def)
  qed
qed

lemma quietD: "quiet m \<Longrightarrow> m s = (x, s1) \<Longrightarrow> scan_requests (trace s1) = scan_requests (trace s)"
  unfolding quiet_def by (metis snd_conv)

lemma sends_all_and_then:
  assumes "quiet m" and "\<And>a. sends_all L (f a)"
  shows "sends_all L (and_then m f)"
  unfolding sends_all_def
proof (intro allI impI)
  fix s s'
  assume "and_then m f s = (Returns None, s')"
  then obtain a s1 where M: "m s = (Returns a, s1)" and F: "f a s1 = (Returns None, s')"
    by (rule and_then_Returns)
  from assms(2) [of a] F have "scan_requests (trace s') = scan_requests (trace s1) @ L"
    unfolding sends_all_def by blast
  with quietD [OF assms(1) M] show "scan_requests (trace s') = scan_requests (trace s) @ L"
    by simp
qed

lemma sends_some_and_then:
  assumes "quiet m" and "\<And>a. sends_some L (f a)"
  shows "sends_some L (and_then m f)"
  unfolding sends_some_def
proof (intro allI impI)
  fix s s' err
  assume "and_then m f s = (Returns (Some err), s')"
  then obtain a s1 where M: "m s = (Returns a, s1)" and F: "f a s1 = (Returns (Some err), s')"
    by (rule and_then_Returns)
  from assms(2) [of a] F obtain n where
    "0 < n" "n \<le> length L" "scan_requests (trace s') = scan_requests (trace s1) @ take n L"
    unfolding sends_some_def by blast
  with quietD [OF assms(1) M]
  show "\<exists>n. 0 < n \<and> n \<le> length L \<and> scan_requests (trace s') = scan_requests (trace s) @ take n L"
    by auto
qed

lemma send_scan_requests_all:
  "sends_all (map (\<lambda>l. (f, lib_ID l)) libs) (send_scan_requests env t f libs)"
  unfolding sends_all_def
proof (induction libs)
  case Nil
  show ?case by simp
next
  case (Cons lib libs)
  show ?case
  proof (intro allI impI)
    fix s s'
    assume A: "send_scan_requests env t f (lib # libs) s = (Returns None, s')"
    obtain r w where R: "api_Scan env (url t) (token t) f (lib_ID lib) (world s) = (r, w)"
      by (cases "api_Scan env (url t) (token t) f (lib_ID lib) (world s)")
    let ?s2 = "emit (Log InfoLevel ''Scan moved to target'')
                 ((emit (ApiScan f (lib_ID lib)) (emit (Log TraceLevel ''Sending scan request'') s))\<lparr>world := w\<rparr>)"
    from A R have N: "r = None" by (cases r) (simp_all add: Let_def)
    with A R have B: "send_scan_requests env t f libs ?s2 = (Returns None, s')"
      by (simp add: Let_def)
    from Cons.IH [rule_format, OF B]
    have "scan_requests (trace s') = scan_requests (trace ?s2) @ map (\<lambda>l. (f, lib_ID l)) libs" .
    moreover have "scan_requests (trace ?s2) = scan_requests (trace s) @ [(f, lib_ID lib)]"
      by (simp add: emit_def scan_requests_append)
    ultimately show "scan_requests (trace s') = scan_requests (trace s) @ map (\<lambda>l. (f, lib_ID l)) (lib # libs)"
      by simp
  qed
qed

lemma send_scan_requests_some:
  "sends_some (map (\<lambda>l. (f, lib_ID l)) libs) (send_scan_requests env t f libs)"
  unfolding sends_some_def
proof (induction libs)
  case Nil
  show ?case by simp
next
  case (Cons lib libs)
  show ?case
  proof (intro allI impI)
    fix s s' err
    assume A: "send_scan_requests env t f (lib # libs) s = (Returns (Some err), s')"
    obtain r w where R: "api_Scan env (url t) (token t) f (lib_ID lib) (world s) = (r, w)"
      by (cases "api_Scan env (url t) (token t) f (lib_ID lib) (world s)")
    let ?L = "map (\<lambda>l. (f, lib_ID l)) (lib # libs)"
    let ?s1 = "emit (ApiScan f (lib_ID lib)) (emit (Log TraceLevel ''Sending scan request'') s)"
    let ?s2 = "emit (Log InfoLevel ''Scan moved to target'') (?s1\<lparr>world := w\<rparr>)"
    show "\<exists>n. 0 < n \<and> n \<le> length ?L \<and> scan_requests (trace s') = scan_requests (trace s) @ take n ?L"
    proof (cases r)
      case (Some e)
      with A R have "s' = ?s1\<lparr>world := w\<rparr>" by (simp add: Let_def)
      then have "scan_requests (trace s') = scan_requests (trace s) @ take 1 ?L"
        by (simp add: emit_def scan_requests_append)
      then show ?thesis by (intro exI [of _ 1]) simp
    next
      case None
      with A R have B: "send_scan_requests env t f libs ?s2 = (Returns (Some err), s')"
        by (simp add: Let_def)
      from Cons.IH [rule_format, OF B] obtain n where N: "0 < n" "n \<le> length libs"
        "scan_requests (trace s') = scan_requests (trace ?s2) @ take n (map (\<lambda>l. (f, lib_ID l)) libs)"
        by auto
      have "scan_requests (trace ?s2) = scan_requests (trace s) @ [(f, lib_ID lib)]"
        by (simp add: emit_def scan_requests_append)
      with N show ?thesis by (intro exI [of _ "Suc n"]) simp
    qed
  qed
qed

lemma Scan_sends_all:
  "sends_all (map (\<lambda>l. (rewrite t (Folder sc), lib_ID l)) (matching t (rewrite t (Folder sc)))) (Scan env t sc)"
proof (cases "getScanLibrary t (rewrite t (Folder sc))")
  case (Inl err)
  then have "matching t (rewrite t (Folder sc)) = []"
    by (auto simp: getScanLibrary_def matching_def Let_def split: if_splits)
  with Inl show ?thesis
    by (simp add: sends_all_def Scan_def Let_def emit_def scan_requests_append)
next
  case (Inr libs)
  then have L: "libs = matching t (rewrite t (Folder sc))"
    by (simp add: getScanLibrary_Inr)
  show ?thesis
    unfolding Scan_def Let_def Inr sum.case L [symmetric]
    by (intro sends_all_and_then quiet_slice_from quiet_rcrefresh send_scan_requests_all
        quiet_refresh_cascade)
qed

lemma Scan_sends_some:
  "sends_some (map (\<lambda>l. (rewrite t (Folder sc), lib_ID l)) (matching t (rewrite t (Folder sc)))) (Scan env t sc)"
proof (cases "getScanLibrary t (rewrite t (Folder sc))")
  case (Inl err)
  then show ?thesis
    by (simp add: sends_some_def Scan_def Let_def)
next
  case (Inr libs)
  then have L: "libs = matching t (rewrite t (Folder sc))"
    by (simp add: getScanLibrary_Inr)
  show ?thesis
    unfolding Scan_def Let_def Inr sum.case L [symmetric]
    by (intro sends_some_and_then quiet_slice_from quiet_rcrefresh send_scan_requests_some
        quiet_refresh_cascade)
qed


lemma Scan_X_failing:
  "Scan failing_env both_target scan_X st0 =
     (Returns (Some (Opaque ''500 Internal Server Error'')),
      \<lparr>world = (),
       trace =
         [Post refresh_url [(''recursive'', ''true''), (''dir'', ''/media/Movies/X'')],
          Post refresh_url2 [(''recursive'', ''true''), (''dir'', ''/media/Movies/X'')],
          Log TraceLevel ''Sending scan request'',
          ApiScan ''/media/Movies/X'' 1]\<rparr>)"
proof -
  have R: "rewrite both_target (Folder scan_X) = ''/media/Movies/X''"
    by (simp add: both_target_def movies_target_def scan_X_def rewriter_of_def HasPrefix_def)
  have G: "getScanLibrary both_target ''/media/Movies/X'' = Inr [movies_library, media_library]"
    by (simp add: getScanLibrary_def both_target_def movies_target_def movies_library_def
        media_library_def HasPrefix_def)
  show ?thesis
    by (simp add: Scan_def R G Let_def and_then_def slice_from_def
        rcrefresh_def TrimPrefix_def TrimSuffix_def HasPrefix_def HasSuffix_def
        failing_env_def answering_env_def st0_def emit_def movies_library_def)
qed

lemma matching_both: "matching both_target ''/media/Movies/X'' = [movies_library, media_library]"
  by (simp add: matching_def both_target_def movies_target_def movies_library_def
      media_library_def HasPrefix_def)

lemma rewrite_X_both: "rewrite both_target (Folder scan_X) = ''/media/Movies/X''"
  by (simp add: both_target_def movies_target_def scan_X_def rewriter_of_def HasPrefix_def)

text \<open>
  C5 (amended). The processor and the triggers are constructed without the plex
  targets' configuration, and answering a trigger's request does not involve the
  targets: a target's rewrite rules play no part in what a trigger stores. The target
  applies its rewriter inside \<open>Scan\<close>, to the folder of the scan it is handed, and every
  scan request it sends to the Plex API carries that rewritten folder
  \<open>t.rewrite(scan.Folder)\<close>: the requests \<open>Scan\<close> adds are a prefix of the list of one
  request per matching library, in the libraries' order; all of that list when \<open>Scan\<close>
  returns \<open>nil\<close>, and a non-empty prefix of it when \<open>Scan\<close> returns an error.
\<close>

theorem target_rewrites_at_dispatch:
  "init_processor env cli (c\<lparr>Targets_Plex := tp\<rparr>) = init_processor env cli c
   \<and> start_triggers env cli (c\<lparr>Targets_Plex := tp\<rparr>) = start_triggers env cli c
   \<and> step env c targets mux (Request rq) d = step env c targets' mux (Request rq) d
   \<and> (\<exists>n. scan_requests (trace (snd (Scan penv t sc s)))
            = scan_requests (trace s)
              @ take n (map (\<lambda>l. (rewrite t (Folder sc), lib_ID l)) (matching t (rewrite t (Folder sc)))))
   \<and> (fst (Scan penv t sc s) = Returns None \<longrightarrow>
        scan_requests (trace (snd (Scan penv t sc s)))
          = scan_requests (trace s)
            @ map (\<lambda>l. (rewrite t (Folder sc), lib_ID l)) (matching t (rewrite t (Folder sc))))
   \<and> (fst (Scan penv t sc s) = Returns (Some err) \<longrightarrow>
        (\<exists>n. 0 < n \<and> scan_requests (trace (snd (Scan penv t sc s)))
            = scan_requests (trace s)
              @ take n (map (\<lambda>l. (rewrite t (Folder sc), lib_ID l)) (matching t (rewrite t (Folder sc))))))"
proof (intro conjI impI)
  show "init_processor env cli (c\<lparr>Targets_Plex := tp\<rparr>) = init_processor env cli c"
    by (simp add: init_processor_def auth_warning_def)
  show "start_triggers env cli (c\<lparr>Targets_Plex := tp\<rparr>) = start_triggers env cli c"
    by (simp add: start_triggers_def)
  show "step env c targets mux (Request rq) d = step env c targets' mux (Request rq) d"
    by (simp add: step_def)
  have "sends (map (\<lambda>l. (rewrite t (Folder sc), lib_ID l)) (matching t (rewrite t (Folder sc)))) (Scan penv t sc)"
  proof (cases "getScanLibrary t (rewrite t (Folder sc))")
    case (Inl e)
    have "scan_requests (trace (snd (Scan penv t sc s')))
            = scan_requests (trace s') @ take 0 (map (\<lambda>l. (rewrite t (Folder sc), lib_ID l)) (matching t (rewrite t (Folder sc))))" for s'
      using Inl by (simp add: Scan_def Let_def emit_def scan_requests_append)
    then show ?thesis unfolding sends_def by blast
  next
    case (Inr libs)
    then have L: "libs = matching t (rewrite t (Folder sc))"
      by (simp add: getScanLibrary_Inr)
    show ?thesis
      unfolding Scan_def Let_def Inr sum.case L [symmetric]
      by (intro sends_and_then quiet_slice_from quiet_rcrefresh sends_send_scan_requests
          quiet_refresh_cascade)
  qed
  then show "\<exists>n. scan_requests (trace (snd (Scan penv t sc s)))
            = scan_requests (trace s)
              @ take n (map (\<lambda>l. (rewrite t (Folder sc), lib_ID l)) (matching t (rewrite t (Folder sc))))"
    unfolding sends_def by blast
next
  assume "fst (Scan penv t sc s) = Returns None"
  then have "Scan penv t sc s = (Returns None, snd (Scan penv t sc s))"
    by (simp add: prod_eq_iff)
  with Scan_sends_all [of t sc penv]
  show "scan_requests (trace (snd (Scan penv t sc s)))
          = scan_requests (trace s)
            @ map (\<lambda>l. (rewrite t (Folder sc), lib_ID l)) (matching t (rewrite t (Folder sc)))"
    unfolding sends_all_def by blast
next
  assume "fst (Scan penv t sc s) = Returns (Some err)"
  then have "Scan penv t sc s = (Returns (Some err), snd (Scan penv t sc s))"
    by (simp add: prod_eq_iff)
  from Scan_sends_some [of t sc penv, unfolded sends_some_def, rule_format, OF this]
  show "\<exists>n. 0 < n \<and> scan_requests (trace (snd (Scan penv t sc s)))
            = scan_requests (trace s)
              @ take n (map (\<lambda>l. (rewrite t (Folder sc), lib_ID l)) (matching t (rewrite t (Folder sc))))"
    by auto
qed

text \<open>
  The scenario of the specification, \<open>/downloads\<close> rewritten to \<open>/media\<close>: one request
  for the one matching library; and a target with two matching libraries whose first
  request the API refuses: that request only.
\<close>

theorem target_rewrites_at_dispatch_witness:
  "fst (Scan answering_env movies_target scan_X st0) = Returns None
   \<and> scan_requests (trace (snd (Scan answering_env movies_target scan_X st0)))
       = [(''/media/Movies/X'', 1)]
   \<and> fst (Scan failing_env both_target scan_X st0) = Returns (Some (Opaque ''500 Internal Server Error''))
   \<and> (\<exists>n. 0 < n \<and> scan_requests (trace (snd (Scan failing_env both_target scan_X st0)))
              = take n [(''/media/Movies/X'', 1), (''/media/Movies/X'', 3)])
   \<and> scan_requests (trace (snd (Scan failing_env both_target scan_X st0))) = [(''/media/Movies/X'', 1)]"
proof -
  have a: "fst (Scan answering_env movies_target scan_X st0) = Returns None"
    by (simp add: Scan_X_answering)
  have b: "fst (Scan failing_env both_target scan_X st0) = Returns (Some (Opaque ''500 Internal Server Error''))"
    by (simp add: Scan_X_failing)
  have t0: "scan_requests (trace st0) = []" by (simp add: st0_def)
  from target_rewrites_at_dispatch [THEN conjunct2, THEN conjunct2, THEN conjunct2, THEN conjunct2,
      THEN conjunct1, of answering_env movies_target scan_X st0] a
  have 1: "scan_requests (trace (snd (Scan answering_env movies_target scan_X st0)))
       = [(''/media/Movies/X'', 1)]"
    by (simp add: rewrite_X matching_X t0 movies_library_def)
  from target_rewrites_at_dispatch [THEN conjunct2, THEN conjunct2, THEN conjunct2, THEN conjunct2,
      THEN conjunct2, of failing_env both_target scan_X st0 "Opaque ''500 Internal Server Error''"] b
  have 2: "\<exists>n. 0 < n \<and> scan_requests (trace (snd (Scan failing_env both_target scan_X st0)))
              = take n [(''/media/Movies/X'', 1), (''/media/Movies/X'', 3)]"
    by (simp add: rewrite_X_both matching_both t0 movies_library_def media_library_def)
  have 3: "scan_requests (trace (snd (Scan failing_env both_target scan_X st0))) = [(''/media/Movies/X'', 1)]"
    by (simp add: Scan_X_failing)
  from a b 1 2 3 show ?thesis by blast
qed

text \<open>
  The claim as first stated has the target's rules applied before the folder is
  stored. They are not: the same request, answered by the same daemon, leaves the same
  world whether the target rewrites \<open>/downloads\<close> to \<open>/media\<close> or has no rule at
  all, although the two targets see the supplied folder under different paths; the
  rewritten path first appears in the request \<open>Scan\<close> sends.
\<close>

theorem target_rules_before_storing_counterexample:
  "step idle_env default_config [PlexTarget movies_target] [''/triggers/manual''] (Request request_X) sim_daemon
     = step idle_env default_config [PlexTarget plain_target] [''/triggers/manual''] (Request request_X) sim_daemon
   \<and> queued (world (io (step idle_env default_config [PlexTarget movies_target] [''/triggers/manual'']
                          (Request request_X) sim_daemon)))
       = [''/downloads/Movies/X'']
   \<and> rewrite movies_target ''/downloads/Movies/X'' = ''/media/Movies/X''
   \<and> rewrite plain_target ''/downloads/Movies/X'' = ''/downloads/Movies/X''
   \<and> scan_requests (trace (snd (Scan answering_env movies_target scan_X st0)))
       = [(''/media/Movies/X'', 1)]"
proof -
  have 1: "step idle_env default_config [PlexTarget movies_target] [''/triggers/manual''] (Request request_X) sim_daemon
     = step idle_env default_config [PlexTarget plain_target] [''/triggers/manual''] (Request request_X) sim_daemon"
    by (simp add: step_def)
  have 2: "queued (world (io (step idle_env default_config [PlexTarget movies_target] [''/triggers/manual'']
                          (Request request_X) sim_daemon)))
       = [''/downloads/Movies/X'']"
    by (simp add: step_def beside_def serve_def sim_daemon_def sim_st_def request_X_def idle_env_def
        sim_env_def emit_def)
  have 3: "rewrite movies_target ''/downloads/Movies/X'' = ''/media/Movies/X''"
    by (simp add: movies_target_def rewriter_of_def HasPrefix_def)
  have 4: "rewrite plain_target ''/downloads/Movies/X'' = ''/downloads/Movies/X''"
    by (simp add: plain_target_def rewriter_of_def)
  have 5: "scan_requests (trace (snd (Scan answering_env movies_target scan_X st0)))
       = [(''/media/Movies/X'', 1)]"
    by (simp add: Scan_X_answering)
  from 1 2 3 4 5 show ?thesis by blast
qed

subsection \<open>Claim C9: a refresh endpoint that cannot be reached\<close>

text \<open>
  C9. When at least one library matches the rewritten folder, the trimmed folder
  contains a slash, and the first POST to the refresh endpoint fails in \<open>client.Do\<close>,
  \<open>Scan\<close> does not return an error: it panics with that error, after the one POST and
  before any request to the Plex API.
\<close>

theorem Scan_panics_on_transport_error:
  assumes "getScanLibrary t (rewrite t (Folder sc)) = Inr libs"
    and "x = TrimPrefix (rewrite t (Folder sc)) ''/mnt/unionfs/Media''"
    and "0 \<le> LastIndex x ''/''"
    and "client_Do env refresh_url [(''recursive'', ''true''), (''dir'', x)] (world s) = (Inl err, w)"
  shows "Scan env t sc s
         = (Panics (PanicError err),
            emit (Post refresh_url [(''recursive'', ''true''), (''dir'', x)]) (s\<lparr>world := w\<rparr>))"
proof -
  have "LastIndex x ''/'' \<le> int (length x)"
    by (rule LastIndex_le)
  with assms show ?thesis
    by (simp add: Scan_def Let_def and_then_def slice_from_def rcrefresh_def)
qed

text \<open>The movies target when both refresh endpoints refuse the connection.\<close>

theorem Scan_panics_on_transport_error_witness:
  "getScanLibrary movies_target (rewrite movies_target (Folder scan_X)) = Inr [movies_library]
   \<and> 0 \<le> LastIndex ''/media/Movies/X'' ''/''
   \<and> Scan refusing_env movies_target scan_X st0
       = (Panics (PanicError (Opaque ''connection refused'')),
          \<lparr>world = (),
           trace = [Post refresh_url [(''recursive'', ''true''), (''dir'', ''/media/Movies/X'')]]\<rparr>)"
proof -
  have a: "getScanLibrary movies_target (rewrite movies_target (Folder scan_X)) = Inr [movies_library]"
    by (simp add: rewrite_X getScanLibrary_X)
  have b: "''/media/Movies/X'' = TrimPrefix (rewrite movies_target (Folder scan_X)) ''/mnt/unionfs/Media''"
    by (simp add: rewrite_X TrimPrefix_def HasPrefix_def)
  have c: "0 \<le> LastIndex ''/media/Movies/X'' ''/''"
    by (simp add: HasPrefix_def)
  have d: "client_Do refusing_env refresh_url [(''recursive'', ''true''), (''dir'', ''/media/Movies/X'')] (world st0)
           = (Inl (Opaque ''connection refused''), ())"
    by (simp add: refusing_env_def)
  have e: "emit (Post refresh_url [(''recursive'', ''true''), (''dir'', ''/media/Movies/X'')])
             (st0\<lparr>world := ()\<rparr>)
           = \<lparr>world = (),
              trace = [Post refresh_url [(''recursive'', ''true''), (''dir'', ''/media/Movies/X'')]]\<rparr>"
    by (simp add: emit_def st0_def)
  from Scan_panics_on_transport_error [OF a b c d] a c e show ?thesis
    by simp
qed

subsection \<open>The driver loop\<close>


lemma process_pass_cases:
  obtains err w where "Process env targets (world (io d)) = (err, w)"
  by (cases "Process env targets (world (io d))") 

lemma trace_process_pass:
  assumes "Process env targets (world (io d)) = (err, w)"
  shows "\<exists>rest. trace (io (process_pass env c targets d)) = trace (io d) @ Processed err # rest
          \<and> (\<forall>x \<in> set rest. \<not> is_call x)"
  using assms by (cases err) (auto simp: process_pass_def Let_def emit_def)

lemma process_pass_unclassified:
  assumes "Process env targets (world (io d)) = (Some e, w)" and "unclassified e"
  shows "process_pass env c targets d
         = d\<lparr>status := Exited 1,
             io := emit (Log FatalLevel ''Failed processing targets'')
                    (emit (Processed (Some e)) ((io d)\<lparr>world := w\<rparr>))\<rparr>"
  using assms by (simp add: process_pass_def unclassified_def Let_def)


lemma run_Nil: "run env c targets mux [] d = d"
  by (simp add: run_def)

lemma run_Cons: "run env c targets mux (ev # evs) d = run env c targets mux evs (step env c targets mux ev d)"
  by (simp add: run_def)

lemma run_append: "run env c targets mux (xs @ ys) d = run env c targets mux ys (run env c targets mux xs d)"
  by (simp add: run_def)

lemma step_Exited: "status d = Exited n \<Longrightarrow> step env c targets mux ev d = d"
  by (simp add: step_def)

lemma run_Exited: "status d = Exited n \<Longrightarrow> run env c targets mux evs d = d"
  by (induction evs) (simp_all add: run_Nil run_Cons step_Exited)

lemma fresh_append: "trace (io d') = trace (io d) @ xs \<Longrightarrow> fresh d d' = xs"
  by (simp add: fresh_def)

text \<open>What one iteration adds to the trace, by the branch it takes.\<close>

lemma iteration_available:
  assumes "targetsAvailable d" and "Process env targets (world (io d)) = (err, w)"
  shows "iteration env c targets d = process_pass env c targets d"
    and "\<exists>rest. fresh d (iteration env c targets d) = Processed err # rest \<and> (\<forall>x \<in> set rest. \<not> is_call x)"
proof -
  show A: "iteration env c targets d = process_pass env c targets d"
    using assms(1) by (simp add: iteration_def)
  from trace_process_pass [OF assms(2), of c] obtain rest where
    "trace (io (process_pass env c targets d)) = trace (io d) @ Processed err # rest"
    "\<forall>x \<in> set rest. \<not> is_call x" by blast
  with A show "\<exists>rest. fresh d (iteration env c targets d) = Processed err # rest \<and> (\<forall>x \<in> set rest. \<not> is_call x)"
    by (simp add: fresh_append)
qed

lemma iteration_probe_failed:
  assumes "\<not> targetsAvailable d" and "CheckAvailability env targets (world (io d)) = (Some e, w)"
  shows "iteration env c targets d =
           (if errors_Is e ErrFatal then
              d\<lparr>status := Stalled,
                io := emit (Log ErrorLevel ''Fatal error occurred while checking target availability, processor stopped, triggers will continue...'')
                        (emit (CheckedAvailability (Some e)) ((io d)\<lparr>world := w\<rparr>))\<rparr>
            else
              d\<lparr>io := emit (Sleep (15 * Second))
                        (emit (Log ErrorLevel ''Not all targets are available, retrying in 15 seconds...'')
                           (emit (CheckedAvailability (Some e)) ((io d)\<lparr>world := w\<rparr>)))\<rparr>)"
    and "\<exists>rest. fresh d (iteration env c targets d) = CheckedAvailability (Some e) # rest \<and> (\<forall>x \<in> set rest. \<not> is_call x)"
  using assms by (simp_all add: iteration_def Let_def fresh_def emit_def)

lemma iteration_probe_ok:
  assumes "\<not> targetsAvailable d" and "CheckAvailability env targets (world (io d)) = (None, w1)"
    and "Process env targets w1 = (err, w)"
  shows "iteration env c targets d =
           process_pass env c targets
             (d\<lparr>targetsAvailable := True, io := emit (CheckedAvailability None) ((io d)\<lparr>world := w1\<rparr>)\<rparr>)"
    and "\<exists>rest. fresh d (iteration env c targets d) = CheckedAvailability None # Processed err # rest
            \<and> (\<forall>x \<in> set rest. \<not> is_call x)"
proof -
  let ?d1 = "d\<lparr>targetsAvailable := True, io := emit (CheckedAvailability None) ((io d)\<lparr>world := w1\<rparr>)\<rparr>"
  show A: "iteration env c targets d = process_pass env c targets ?d1"
    using assms(1,2) by (simp add: iteration_def Let_def)
  have "Process env targets (world (io ?d1)) = (err, w)"
    using assms(3) by (simp add: emit_def)
  from trace_process_pass [OF this, of c] obtain rest where
    "trace (io (process_pass env c targets ?d1)) = trace (io ?d1) @ Processed err # rest"
    "\<forall>x \<in> set rest. \<not> is_call x" by blast
  with A show "\<exists>rest. fresh d (iteration env c targets d) = CheckedAvailability None # Processed err # rest
            \<and> (\<forall>x \<in> set rest. \<not> is_call x)"
    by (simp add: fresh_def emit_def)
qed

lemma no_call_mem:
  assumes "\<forall>x \<in> set rest. \<not> is_call x"
  shows "Processed r \<notin> set rest" and "CheckedAvailability r \<notin> set rest"
  using assms by fastforce+

text \<open>If an iteration's trace shows that \<open>Process\<close> returned \<open>err\<close>, that is what the pass saw.\<close>

lemma iteration_Processed:
  assumes "Processed r \<in> set (fresh d (iteration env c targets d))"
  shows "\<exists>d1 w. iteration env c targets d = process_pass env c targets d1
           \<and> Process env targets (world (io d1)) = (r, w)
           \<and> status d1 = status d
           \<and> (\<exists>pre. trace (io d1) = trace (io d) @ pre \<and> (\<forall>x \<in> set pre. \<forall>n. x \<noteq> Sleep n))"
proof (cases "targetsAvailable d")
  case True
  obtain err w where P: "Process env targets (world (io d)) = (err, w)"
    by (cases "Process env targets (world (io d))")
  from iteration_available [OF True P, of c] assms have "err = r" by (auto dest: no_call_mem)
  with P iteration_available(1) [OF True P, of c] show ?thesis by auto
next
  case False
  obtain cerr w1 where C: "CheckAvailability env targets (world (io d)) = (cerr, w1)"
    by (cases "CheckAvailability env targets (world (io d))")
  show ?thesis
  proof (cases cerr)
    case (Some e)
    with iteration_probe_failed(2) [OF False, of env targets e w1 c] C assms
    show ?thesis by (auto dest: no_call_mem)
  next
    case None
    obtain err w where P: "Process env targets w1 = (err, w)"
      by (cases "Process env targets w1")
    let ?d1 = "d\<lparr>targetsAvailable := True, io := emit (CheckedAvailability None) ((io d)\<lparr>world := w1\<rparr>)\<rparr>"
    from iteration_probe_ok [OF False C [unfolded None] P, of c] assms have "err = r"
      by (auto dest: no_call_mem)
    with P iteration_probe_ok(1) [OF False C [unfolded None] P, of c]
    have "iteration env c targets d = process_pass env c targets ?d1
           \<and> Process env targets (world (io ?d1)) = (r, w)
           \<and> status ?d1 = status d
           \<and> trace (io ?d1) = trace (io d) @ [CheckedAvailability None]"
      by (simp add: emit_def)
    then show ?thesis by (intro exI [of _ ?d1] exI [of _ w]) auto
  qed
qed

lemma step_Tick_Running: "status d = Running \<Longrightarrow> step env c targets mux Tick d = iteration env c targets d"
  by (simp add: step_def)

subsection \<open>Claim C7: an unclassified error of Process\<close>

text \<open>
  C7. When, in an iteration of the running driver loop, \<open>Process\<close> returns a non-nil
  error that matches none of \<open>ErrNoScans\<close>, \<open>ErrAnchorUnavailable\<close>,
  \<open>ErrTargetUnavailable\<close> and \<open>ErrFatal\<close>, the daemon logs at fatal level and the
  process exits with code 1: the iteration sleeps nowhere, and whatever events follow
  (ticks, requests, triggers) nothing happens any more.
\<close>

theorem unclassified_error_aborts:
  assumes "status d = Running"
    and "d' = step env c targets mux Tick d"
    and "Processed (Some e) \<in> set (fresh d d')"
    and "unclassified e"
  shows "status d' = Exited 1
         \<and> last (trace (io d')) = Log FatalLevel ''Failed processing targets''
         \<and> (\<forall>x \<in> set (fresh d d'). \<forall>n. x \<noteq> Sleep n)
         \<and> (\<forall>evs. run env c targets mux evs d' = d')"
proof -
  from assms(1,2) have D: "d' = iteration env c targets d" by (simp add: step_Tick_Running)
  from iteration_Processed [OF assms(3) [unfolded D]] obtain d1 w pre where
    I: "iteration env c targets d = process_pass env c targets d1"
    and P: "Process env targets (world (io d1)) = (Some e, w)"
    and T: "trace (io d1) = trace (io d) @ pre" "\<forall>x \<in> set pre. \<forall>n. x \<noteq> Sleep n"
    by blast
  note E = process_pass_unclassified [OF P assms(4), of c]
  from D I E have S: "status d' = Exited 1" by simp
  from D I E have L: "last (trace (io d')) = Log FatalLevel ''Failed processing targets''"
    by (simp add: emit_def)
  from D I E T have "fresh d d' = pre @ [Processed (Some e), Log FatalLevel ''Failed processing targets'']"
    by (simp add: fresh_def emit_def)
  with T(2) have F: "\<forall>x \<in> set (fresh d d'). \<forall>n. x \<noteq> Sleep n" by auto
  from S have "\<forall>evs. run env c targets mux evs d' = d'" by (simp add: run_Exited)
  with S L F show ?thesis by blast
qed

subsection \<open>Claim C1: a fatal error stalls the driver, not the triggers\<close>








subsection \<open>Claim C3: availability is probed again after an unavailable target\<close>
















subsection \<open>The driver loop on the simulated daemon\<close>

lemmas sim_simps = step_def iteration_def process_pass_def beside_def serve_def sim_env_def
  sim_daemon_def sim_st_def emit_def Let_def request_X_def manual_mux_def

lemma locked_Tick:
  "step locked_env default_config [] manual_mux Tick sim_daemon =
     \<lparr>status = Exited 1, targetsAvailable = True,
      io = \<lparr>world = \<lparr>probes = 1, passes = 1, queued = []\<rparr>,
            trace = [CheckedAvailability None, Processed (Some locked_error),
                     Log FatalLevel ''Failed processing targets'']\<rparr>\<rparr>"
  by (simp add: sim_simps locked_env_def locked_error_def)

text \<open>
  C7 on the simulated daemon: the first pass fails with \<open>database is locked\<close>; the
  process exits with code 1, and a later request and tick change nothing.
\<close>

theorem unclassified_error_aborts_witness:
  "status sim_daemon = Running
   \<and> unclassified locked_error
   \<and> Processed (Some locked_error)
       \<in> set (fresh sim_daemon (step locked_env default_config [] manual_mux Tick sim_daemon))
   \<and> status (step locked_env default_config [] manual_mux Tick sim_daemon) = Exited 1
   \<and> last (trace (io (step locked_env default_config [] manual_mux Tick sim_daemon)))
       = Log FatalLevel ''Failed processing targets''
   \<and> run locked_env default_config [] manual_mux [Request request_X, Tick]
         (step locked_env default_config [] manual_mux Tick sim_daemon)
       = step locked_env default_config [] manual_mux Tick sim_daemon"
proof -
  have a: "status sim_daemon = Running" by (simp add: sim_daemon_def)
  have b: "Processed (Some locked_error)
       \<in> set (fresh sim_daemon (step locked_env default_config [] manual_mux Tick sim_daemon))"
    by (simp add: locked_Tick fresh_def) (simp add: sim_daemon_def sim_st_def)
  have c: "unclassified locked_error" by (simp add: unclassified_def locked_error_def)
  from unclassified_error_aborts [OF a refl b c] a b c show ?thesis by blast
qed









end
